theory Spec2Isabelle
  imports Main "HOL-Library.Word"
begin

section \<open>The VRAM prober: data model\<close>

text \<open>
  The two prober variants (\<^verbatim>\<open>pkg/gpuinfo/nvapi.c\<close> for Windows and
  \<^verbatim>\<open>pkg/gpuinfo/nvidia.c\<close> for Linux) talk to two external collaborators: the
  dynamic loader of the operating system and the vendor library it loads. Both are
  modelled as an environment record whose fields give the outcome of every external call
  the function can make. Within one run each external function is called at most once
  per argument, so a fixed table of outcomes covers every behaviour of the collaborators
  that one run can observe.

  Pointers are natural numbers; a call that can return \<^verbatim>\<open>NULL\<close> returns an
  \<open>option\<close>, with \<open>None\<close> for \<^verbatim>\<open>NULL\<close>. Status codes (\<^verbatim>\<open>NvAPI_Status\<close>,
  \<^verbatim>\<open>nvmlReturn_t\<close>) are 32-bit enums whose only named value is success, \<open>0\<close>.
  \<^verbatim>\<open>size_t\<close> is taken as 64 bits wide, as on the 64-bit Windows and Linux targets
  (LLP64 and LP64); \<^verbatim>\<open>unsigned long long\<close> is 64 bits wide.
\<close>

type_synonym size_t = "64 word"
type_synonym NvU32 = "32 word"
type_synonym status = "32 word"

text \<open>
  Every external call appends an event to a trace, the state the functions thread
  through. \<open>Load\<close> stands for \<^verbatim>\<open>LoadLibraryA\<close> or \<^verbatim>\<open>dlopen\<close> (with its result),
  \<open>Resolve\<close> for \<^verbatim>\<open>GetProcAddress\<close> or \<^verbatim>\<open>dlsym\<close> (with its result), \<open>Unload\<close>
  for \<^verbatim>\<open>FreeLibrary\<close> or \<^verbatim>\<open>dlclose\<close>. The four \<open>Call\<close> events are the calls
  through the resolved function pointers; each carries the pointer that is called, and
  the memory query also carries the device handle and the record it is given.
\<close>

datatype 'm event =
    Load string "nat option"
  | Resolve nat string "nat option"
  | Unload nat
  | Call_Init nat
  | Call_Enum nat
  | Call_MemInfo nat nat 'm
  | Call_Shutdown nat

fun is_Unload :: "'m event \<Rightarrow> bool" where
  "is_Unload (Unload h) = True"
| "is_Unload e = False"

fun is_Shutdown :: "'m event \<Rightarrow> bool" where
  "is_Shutdown (Call_Shutdown f) = True"
| "is_Shutdown e = False"

fun is_Load_ok :: "'m event \<Rightarrow> bool" where
  "is_Load_ok (Load n (Some h)) = True"
| "is_Load_ok e = False"

fun is_vendor_call :: "'m event \<Rightarrow> bool" where
  "is_vendor_call (Call_Init f) = True"
| "is_vendor_call (Call_Enum f) = True"
| "is_vendor_call (Call_MemInfo f d m) = True"
| "is_vendor_call (Call_Shutdown f) = True"
| "is_vendor_call e = False"

fun is_MemInfo :: "'m event \<Rightarrow> bool" where
  "is_MemInfo (Call_MemInfo f d m) = True"
| "is_MemInfo e = False"

subsection \<open>Windows variant (nvapi.c)\<close>

record NV_DISPLAY_DRIVER_MEMORY_INFO =
  version :: NvU32
  dedicatedVideoMemory :: NvU32
  availableDedicatedVideoMemory :: NvU32
  systemVideoMemory :: NvU32
  sharedSystemMemory :: NvU32

definition NVAPI_OK :: status where
  "NVAPI_OK = 0"

definition NV_DISPLAY_DRIVER_MEMORY_INFO_VER :: NvU32 where
  "NV_DISPLAY_DRIVER_MEMORY_INFO_VER = 0x10028"

text \<open>
  The environment of the Windows variant. \<open>invoke_NvAPI_EnumPhysicalGPUs f hs c\<close> is
  the call through pointer \<open>f\<close> with the array \<open>hs\<close> and the counter \<open>c\<close> behind its
  two out-parameters; it returns the status and what the array and the counter hold
  afterwards. \<open>invoke_NvAPI_GPU_GetMemoryInfo f g m\<close> likewise returns the status and
  the record as the callee left it. \<open>stack_handles\<close> and \<open>stack_memInfo\<close> are the
  indeterminate initial contents of the locals \<^verbatim>\<open>handles\<close> and \<^verbatim>\<open>memInfo\<close>,
  which the function does not initialise.
\<close>

record nvapi_env =
  LoadLibraryA :: "string \<Rightarrow> nat option"
  GetProcAddress :: "nat \<Rightarrow> string \<Rightarrow> nat option"
  invoke_NvAPI_Initialize :: "nat \<Rightarrow> status"
  invoke_NvAPI_EnumPhysicalGPUs :: "nat \<Rightarrow> (nat \<Rightarrow> nat) \<Rightarrow> NvU32 \<Rightarrow> status \<times> (nat \<Rightarrow> nat) \<times> NvU32"
  invoke_NvAPI_GPU_GetMemoryInfo ::
    "nat \<Rightarrow> nat \<Rightarrow> NV_DISPLAY_DRIVER_MEMORY_INFO \<Rightarrow> status \<times> NV_DISPLAY_DRIVER_MEMORY_INFO"
  invoke_NvAPI_Unload :: "nat \<Rightarrow> status"
  stack_handles :: "nat \<Rightarrow> nat"
  stack_memInfo :: NV_DISPLAY_DRIVER_MEMORY_INFO

type_synonym nvapi_trace = "NV_DISPLAY_DRIVER_MEMORY_INFO event list"

text \<open>
  \<^verbatim>\<open>getVRAMSize\<close> of nvapi.c, lines 22 to 80. The statuses that \<^verbatim>\<open>NvAPI_Unload\<close>
  and \<^verbatim>\<open>FreeLibrary\<close> return are ignored by the source and so by the model.
\<close>

definition getVRAMSize_nvapi :: "nvapi_env \<Rightarrow> nvapi_trace \<Rightarrow> size_t \<times> nvapi_trace" where
  "getVRAMSize_nvapi env tr0 =
    (let first = LoadLibraryA env ''nvapi64.dll'';
         tr1 = tr0 @ [Load ''nvapi64.dll'' first];
         (handle, tr2) =
           (case first of
              Some h \<Rightarrow> (first, tr1)
            | None \<Rightarrow>
                (let second = LoadLibraryA env ''nvapi.dll''
                 in (second, tr1 @ [Load ''nvapi.dll'' second])))
     in case handle of
          None \<Rightarrow> (0, tr2)
        | Some handle \<Rightarrow>
            (let NvAPI_Initialize = GetProcAddress env handle ''NvAPI_Initialize'';
                 NvAPI_EnumPhysicalGPUs = GetProcAddress env handle ''NvAPI_EnumPhysicalGPUs'';
                 NvAPI_GPU_GetMemoryInfo = GetProcAddress env handle ''NvAPI_GPU_GetMemoryInfo'';
                 NvAPI_Unload = GetProcAddress env handle ''NvAPI_Unload'';
                 tr3 = tr2 @
                   [Resolve handle ''NvAPI_Initialize'' NvAPI_Initialize,
                    Resolve handle ''NvAPI_EnumPhysicalGPUs'' NvAPI_EnumPhysicalGPUs,
                    Resolve handle ''NvAPI_GPU_GetMemoryInfo'' NvAPI_GPU_GetMemoryInfo,
                    Resolve handle ''NvAPI_Unload'' NvAPI_Unload]
             in case (NvAPI_Initialize, NvAPI_EnumPhysicalGPUs, NvAPI_GPU_GetMemoryInfo, NvAPI_Unload) of
                  (Some fInit, Some fEnum, Some fMem, Some fUnload) \<Rightarrow>
                    (let status = invoke_NvAPI_Initialize env fInit;
                         tr4 = tr3 @ [Call_Init fInit]
                     in if status \<noteq> NVAPI_OK then (0, tr4 @ [Unload handle])
                        else
                          (let (status, handles, count) =
                                 invoke_NvAPI_EnumPhysicalGPUs env fEnum (stack_handles env) 0;
                               tr5 = tr4 @ [Call_Enum fEnum]
                           in if status \<noteq> NVAPI_OK \<or> count = 0
                              then (0, tr5 @ [Call_Shutdown fUnload, Unload handle])
                              else
                                (let memInfo = (stack_memInfo env)
                                       \<lparr>version := NV_DISPLAY_DRIVER_MEMORY_INFO_VER\<rparr>;
                                     (status, memInfo') =
                                       invoke_NvAPI_GPU_GetMemoryInfo env fMem (handles 0) memInfo;
                                     tr6 = tr5 @ [Call_MemInfo fMem (handles 0) memInfo]
                                 in if status \<noteq> NVAPI_OK
                                    then (0, tr6 @ [Call_Shutdown fUnload, Unload handle])
                                    else (ucast (dedicatedVideoMemory memInfo') * 1024,
                                          tr6 @ [Call_Shutdown fUnload, Unload handle]))))
                | _ \<Rightarrow> (0, tr3 @ [Unload handle])))"

subsection \<open>Linux variant (nvidia.c)\<close>

record nvmlMemory_t =
  total :: "64 word"
  free :: "64 word"
  used :: "64 word"

definition NVML_SUCCESS :: status where
  "NVML_SUCCESS = 0"

text \<open>
  The environment of the Linux variant. \<^verbatim>\<open>dlopen\<close> is always called with the flag
  \<^verbatim>\<open>RTLD_LAZY\<close>, which the model leaves out. \<open>invoke_nvmlDeviceGetHandleByIndex f i d\<close>
  is the call through \<open>f\<close> with index \<open>i\<close> and \<open>d\<close> behind the out-parameter; it
  returns the status and the device handle afterwards. \<open>stack_device\<close> and
  \<open>stack_memory\<close> are the indeterminate initial contents of the locals
  \<^verbatim>\<open>device\<close> and \<^verbatim>\<open>memory\<close>.
\<close>

record nvml_env =
  dlopen :: "string \<Rightarrow> nat option"
  dlsym :: "nat \<Rightarrow> string \<Rightarrow> nat option"
  invoke_nvmlInit :: "nat \<Rightarrow> status"
  invoke_nvmlShutdown :: "nat \<Rightarrow> status"
  invoke_nvmlDeviceGetHandleByIndex :: "nat \<Rightarrow> 32 word \<Rightarrow> nat \<Rightarrow> status \<times> nat"
  invoke_nvmlDeviceGetMemoryInfo :: "nat \<Rightarrow> nat \<Rightarrow> nvmlMemory_t \<Rightarrow> status \<times> nvmlMemory_t"
  stack_device :: nat
  stack_memory :: nvmlMemory_t

type_synonym nvml_trace = "nvmlMemory_t event list"

text \<open>
  \<^verbatim>\<open>getVRAMSize\<close> of nvidia.c, lines 17 to 71. The result \<^verbatim>\<open>memory.total\<close> is an
  \<^verbatim>\<open>unsigned long long\<close> converted to \<^verbatim>\<open>size_t\<close>.
\<close>

definition getVRAMSize_nvml :: "nvml_env \<Rightarrow> nvml_trace \<Rightarrow> size_t \<times> nvml_trace" where
  "getVRAMSize_nvml env tr0 =
    (let first = dlopen env ''libnvidia-ml.so.1'';
         tr1 = tr0 @ [Load ''libnvidia-ml.so.1'' first];
         (handle, tr2) =
           (case first of
              Some h \<Rightarrow> (first, tr1)
            | None \<Rightarrow>
                (let second = dlopen env ''libnvidia-ml.so''
                 in (second, tr1 @ [Load ''libnvidia-ml.so'' second])))
     in case handle of
          None \<Rightarrow> (0, tr2)
        | Some handle \<Rightarrow>
            (let nvmlInit = dlsym env handle ''nvmlInit'';
                 nvmlShutdown = dlsym env handle ''nvmlShutdown'';
                 nvmlDeviceGetHandleByIndex = dlsym env handle ''nvmlDeviceGetHandleByIndex'';
                 nvmlDeviceGetMemoryInfo = dlsym env handle ''nvmlDeviceGetMemoryInfo'';
                 tr3 = tr2 @
                   [Resolve handle ''nvmlInit'' nvmlInit,
                    Resolve handle ''nvmlShutdown'' nvmlShutdown,
                    Resolve handle ''nvmlDeviceGetHandleByIndex'' nvmlDeviceGetHandleByIndex,
                    Resolve handle ''nvmlDeviceGetMemoryInfo'' nvmlDeviceGetMemoryInfo]
             in case (nvmlInit, nvmlShutdown, nvmlDeviceGetHandleByIndex, nvmlDeviceGetMemoryInfo) of
                  (Some fInit, Some fShutdown, Some fGet, Some fMem) \<Rightarrow>
                    (let result = invoke_nvmlInit env fInit;
                         tr4 = tr3 @ [Call_Init fInit]
                     in if result \<noteq> NVML_SUCCESS then (0, tr4 @ [Unload handle])
                        else
                          (let (result, device) =
                                 invoke_nvmlDeviceGetHandleByIndex env fGet 0 (stack_device env);
                               tr5 = tr4 @ [Call_Enum fGet]
                           in if result \<noteq> NVML_SUCCESS
                              then (0, tr5 @ [Call_Shutdown fShutdown, Unload handle])
                              else
                                (let (result, memory) =
                                       invoke_nvmlDeviceGetMemoryInfo env fMem device (stack_memory env);
                                     tr6 = tr5 @ [Call_MemInfo fMem device (stack_memory env)]
                                 in if result \<noteq> NVML_SUCCESS
                                    then (0, tr6 @ [Call_Shutdown fShutdown, Unload handle])
                                    else (ucast (total memory),
                                          tr6 @ [Call_Shutdown fShutdown, Unload handle]))))
                | _ \<Rightarrow> (0, tr3 @ [Unload handle])))"

subsection \<open>Vocabulary of the properties\<close>

text \<open>
  \<open>nvapi_opens env h\<close>: the fallback chain of the Windows variant ends with handle
  \<open>h\<close>, from the primary name or, the primary failing, from the secondary one.
  \<open>nvapi_resolves env h fInit fEnum fMem fUnload\<close>: the four required symbols resolve
  in the library \<open>h\<close>, to these pointers. \<open>nvml_opens\<close> and \<open>nvml_resolves\<close> are the
  same for the Linux variant.
\<close>

definition nvapi_opens :: "nvapi_env \<Rightarrow> nat \<Rightarrow> bool" where
  "nvapi_opens env h \<longleftrightarrow>
     LoadLibraryA env ''nvapi64.dll'' = Some h \<or>
     (LoadLibraryA env ''nvapi64.dll'' = None \<and> LoadLibraryA env ''nvapi.dll'' = Some h)"

definition nvapi_resolves :: "nvapi_env \<Rightarrow> nat \<Rightarrow> nat \<Rightarrow> nat \<Rightarrow> nat \<Rightarrow> nat \<Rightarrow> bool" where
  "nvapi_resolves env h fInit fEnum fMem fUnload \<longleftrightarrow>
     GetProcAddress env h ''NvAPI_Initialize'' = Some fInit \<and>
     GetProcAddress env h ''NvAPI_EnumPhysicalGPUs'' = Some fEnum \<and>
     GetProcAddress env h ''NvAPI_GPU_GetMemoryInfo'' = Some fMem \<and>
     GetProcAddress env h ''NvAPI_Unload'' = Some fUnload"

definition nvml_opens :: "nvml_env \<Rightarrow> nat \<Rightarrow> bool" where
  "nvml_opens env h \<longleftrightarrow>
     dlopen env ''libnvidia-ml.so.1'' = Some h \<or>
     (dlopen env ''libnvidia-ml.so.1'' = None \<and> dlopen env ''libnvidia-ml.so'' = Some h)"

definition nvml_resolves :: "nvml_env \<Rightarrow> nat \<Rightarrow> nat \<Rightarrow> nat \<Rightarrow> nat \<Rightarrow> nat \<Rightarrow> bool" where
  "nvml_resolves env h fInit fShutdown fGet fMem \<longleftrightarrow>
     dlsym env h ''nvmlInit'' = Some fInit \<and>
     dlsym env h ''nvmlShutdown'' = Some fShutdown \<and>
     dlsym env h ''nvmlDeviceGetHandleByIndex'' = Some fGet \<and>
     dlsym env h ''nvmlDeviceGetMemoryInfo'' = Some fMem"

text \<open>
  Two environments have the same responses when the loader gives the same outcomes, init
  returns the same status, and each later vendor call, made with the contents of the
  uninitialised locals of its own environment, leaves the same values in what the
  function reads back: the status, the first handle and the count for the enumeration;
  the status and the memory value for the memory query. The contents of the
  uninitialised locals themselves may differ between the two environments.
\<close>

definition nvapi_enum_read :: "status \<times> (nat \<Rightarrow> nat) \<times> NvU32 \<Rightarrow> status \<times> nat \<times> NvU32" where
  "nvapi_enum_read r = (case r of (st, handles, count) \<Rightarrow> (st, handles 0, count))"

definition nvapi_mem_read :: "status \<times> NV_DISPLAY_DRIVER_MEMORY_INFO \<Rightarrow> status \<times> NvU32" where
  "nvapi_mem_read r = (case r of (st, memInfo) \<Rightarrow> (st, dedicatedVideoMemory memInfo))"

definition nvml_mem_read :: "status \<times> nvmlMemory_t \<Rightarrow> status \<times> 64 word" where
  "nvml_mem_read r = (case r of (st, memory) \<Rightarrow> (st, total memory))"

definition nvapi_same_responses :: "nvapi_env \<Rightarrow> nvapi_env \<Rightarrow> bool" where
  "nvapi_same_responses a b \<longleftrightarrow>
     LoadLibraryA a = LoadLibraryA b \<and>
     GetProcAddress a = GetProcAddress b \<and>
     invoke_NvAPI_Initialize a = invoke_NvAPI_Initialize b \<and>
     (\<forall>f. nvapi_enum_read (invoke_NvAPI_EnumPhysicalGPUs a f (stack_handles a) 0) =
          nvapi_enum_read (invoke_NvAPI_EnumPhysicalGPUs b f (stack_handles b) 0)) \<and>
     (\<forall>f g. nvapi_mem_read (invoke_NvAPI_GPU_GetMemoryInfo a f g
                ((stack_memInfo a)\<lparr>version := NV_DISPLAY_DRIVER_MEMORY_INFO_VER\<rparr>)) =
            nvapi_mem_read (invoke_NvAPI_GPU_GetMemoryInfo b f g
                ((stack_memInfo b)\<lparr>version := NV_DISPLAY_DRIVER_MEMORY_INFO_VER\<rparr>)))"

definition nvml_same_responses :: "nvml_env \<Rightarrow> nvml_env \<Rightarrow> bool" where
  "nvml_same_responses a b \<longleftrightarrow>
     dlopen a = dlopen b \<and>
     dlsym a = dlsym b \<and>
     invoke_nvmlInit a = invoke_nvmlInit b \<and>
     (\<forall>f. invoke_nvmlDeviceGetHandleByIndex a f 0 (stack_device a) =
          invoke_nvmlDeviceGetHandleByIndex b f 0 (stack_device b)) \<and>
     (\<forall>f d. nvml_mem_read (invoke_nvmlDeviceGetMemoryInfo a f d (stack_memory a)) =
            nvml_mem_read (invoke_nvmlDeviceGetMemoryInfo b f d (stack_memory b)))"

text \<open>
  Mock environments, for concrete runs: the outcome of each load, the export table of the
  library, the status of each vendor call, the device count and the memory value.
\<close>

definition nvapi_exports :: "string \<Rightarrow> nat option" where
  "nvapi_exports name =
     (if name = ''NvAPI_Initialize'' then Some 1
      else if name = ''NvAPI_EnumPhysicalGPUs'' then Some 2
      else if name = ''NvAPI_GPU_GetMemoryInfo'' then Some 3
      else if name = ''NvAPI_Unload'' then Some 4
      else None)"

definition mock_nvapi ::
  "nat option \<Rightarrow> nat option \<Rightarrow> (string \<Rightarrow> nat option) \<Rightarrow> status \<Rightarrow> status \<Rightarrow> NvU32 \<Rightarrow> status \<Rightarrow> NvU32
     \<Rightarrow> nvapi_env" where
  "mock_nvapi lib1 lib2 exports st_init st_enum n st_mem kb =
     \<lparr>LoadLibraryA = (\<lambda>name. if name = ''nvapi64.dll'' then lib1
                               else if name = ''nvapi.dll'' then lib2 else None),
      GetProcAddress = (\<lambda>h. exports),
      invoke_NvAPI_Initialize = (\<lambda>f. st_init),
      invoke_NvAPI_EnumPhysicalGPUs = (\<lambda>f hs c. (st_enum, (\<lambda>i. 7), n)),
      invoke_NvAPI_GPU_GetMemoryInfo = (\<lambda>f g m. (st_mem, m\<lparr>dedicatedVideoMemory := kb\<rparr>)),
      invoke_NvAPI_Unload = (\<lambda>f. 0),
      stack_handles = (\<lambda>i. 0),
      stack_memInfo = \<lparr>version = 0, dedicatedVideoMemory = 0, availableDedicatedVideoMemory = 0,
                       systemVideoMemory = 0, sharedSystemMemory = 0\<rparr>\<rparr>"

definition nvml_exports :: "string \<Rightarrow> nat option" where
  "nvml_exports name =
     (if name = ''nvmlInit'' then Some 1
      else if name = ''nvmlShutdown'' then Some 2
      else if name = ''nvmlDeviceGetHandleByIndex'' then Some 3
      else if name = ''nvmlDeviceGetMemoryInfo'' then Some 4
      else None)"

definition mock_nvml ::
  "nat option \<Rightarrow> nat option \<Rightarrow> (string \<Rightarrow> nat option) \<Rightarrow> status \<Rightarrow> status \<Rightarrow> status \<Rightarrow> 64 word
     \<Rightarrow> nvml_env" where
  "mock_nvml lib1 lib2 exports st_init st_get st_mem bytes =
     \<lparr>dlopen = (\<lambda>name. if name = ''libnvidia-ml.so.1'' then lib1
                         else if name = ''libnvidia-ml.so'' then lib2 else None),
      dlsym = (\<lambda>h. exports),
      invoke_nvmlInit = (\<lambda>f. st_init),
      invoke_nvmlShutdown = (\<lambda>f. 0),
      invoke_nvmlDeviceGetHandleByIndex = (\<lambda>f i d. (st_get, 7)),
      invoke_nvmlDeviceGetMemoryInfo = (\<lambda>f d m. (st_mem, m\<lparr>total := bytes\<rparr>)),
      stack_device = 0,
      stack_memory = \<lparr>total = 0, free = 0, used = 0\<rparr>\<rparr>"



section \<open>The log forwarder (asl_darwin.c): model\<close>

text \<open>
  \<^verbatim>\<open>apple_asl_logger_log\<close> forwards a message to the Apple System Log. A message is
  the content of the C string, the bytes before the terminating NUL, so
  \<^verbatim>\<open>strlen\<close> is \<open>length\<close>. The state is the two statics \<^verbatim>\<open>asl\<close> and
  \<^verbatim>\<open>log_msg\<close> (both \<^verbatim>\<open>NULL\<close> at program start) and the list of calls made to
  the ASL library so far. The environment gives what \<^verbatim>\<open>asl_open\<close> and
  \<^verbatim>\<open>asl_new\<close> return. An \<open>Asl_log\<close> call carries the client, the message template,
  the level and the formatted text.
\<close>

datatype asl_call =
    Asl_open string string nat
  | Asl_new
  | Asl_log "nat option" "nat option" int string

record logger_state =
  asl :: "nat option"
  log_msg :: "nat option"
  calls :: "asl_call list"

record asl_env =
  asl_open :: "string \<Rightarrow> string \<Rightarrow> nat \<Rightarrow> nat option"
  asl_new :: "nat option"

definition asl_log :: "int \<Rightarrow> string \<Rightarrow> logger_state \<Rightarrow> logger_state" where
  "asl_log level text s = s\<lparr>calls := calls s @ [Asl_log (asl s) (log_msg s) level text]\<rparr>"

text \<open>
  The loop counter \<^verbatim>\<open>pos\<close> is a 32-bit \<^verbatim>\<open>int\<close>, the length \<^verbatim>\<open>len\<close> a 64-bit
  \<^verbatim>\<open>size_t\<close>. In \<^verbatim>\<open>pos < len\<close> and \<^verbatim>\<open>pos + step < len\<close> the left side is
  converted to \<^verbatim>\<open>size_t\<close> (\<open>to_size_t\<close>, reduction modulo \<open>2 ^ 64\<close>). The sum
  \<^verbatim>\<open>pos + step\<close> is computed in \<^verbatim>\<open>int\<close>: when it exceeds \<open>INT_MAX\<close> the behaviour
  of the C program is undefined, which the model reports as the fault
  \<open>Signed_Overflow\<close>.
\<close>

datatype fault = Signed_Overflow

definition INT_MAX :: int where
  "INT_MAX = 2147483647"

definition step :: int where
  "step = 1000"

definition to_size_t :: "int \<Rightarrow> nat" where
  "to_size_t i = nat (i mod 2 ^ 64)"

text \<open>
  The \<^verbatim>\<open>for\<close> loop of lines 29 to 35, from the position \<open>pos\<close>. The format
  \<^verbatim>\<open>"%s%.*s%s"\<close> with precision \<^verbatim>\<open>step\<close> prints the prefix, at most \<open>step\<close>
  bytes of the message from \<open>pos\<close> on, and the suffix.
\<close>

function split_loop :: "int \<Rightarrow> string \<Rightarrow> int \<Rightarrow> logger_state \<Rightarrow> fault + logger_state" where
  "split_loop level message pos s =
     (if to_size_t pos < length message then
        (if INT_MAX < pos + step then Inl Signed_Overflow
         else
           split_loop level message (pos + step)
             (asl_log level
                ((if pos \<noteq> 0 then ''[...] '' else '''') @
                 take (nat step) (drop (nat pos) message) @
                 (if to_size_t (pos + step) < length message then '' [...]'' else ''''))
                s))
      else Inr s)"
  by pat_completeness auto
termination
  by (relation "measure (\<lambda>(level, message, pos, s). nat (INT_MAX + 1 - pos))")
    (auto simp: step_def)

declare split_loop.simps [simp del]

text \<open>\<^verbatim>\<open>apple_asl_logger_log\<close>, lines 16 to 37.\<close>

definition apple_asl_logger_log ::
  "asl_env \<Rightarrow> int \<Rightarrow> string \<Rightarrow> logger_state \<Rightarrow> fault + logger_state" where
  "apple_asl_logger_log env level message s =
     (let s1 = (if asl s = None
                then s\<lparr>asl := asl_open env ''Docker'' ''com.docker.docker'' 0,
                       log_msg := asl_new env,
                       calls := calls s @ [Asl_open ''Docker'' ''com.docker.docker'' 0, Asl_new]\<rparr>
                else s);
          len = length message
      in if len < 1024 then Inr (asl_log level message s1)
         else split_loop level message 0 s1)"

subsection \<open>The same loop with wrapping arithmetic\<close>

text \<open>
  On a two's-complement target whose \<^verbatim>\<open>int\<close> addition wraps around, the overflowing
  sum becomes negative (\<open>wrap_int\<close>) and the run goes on. This second reading of lines 16
  to 37 differs from the first only in \<^verbatim>\<open>pos + step\<close>. With wrapping the loop need
  not come to an end for every length, so not returning is the value \<open>None\<close>. A negative
  \<open>pos\<close> passes the loop test only when the message has \<open>2 ^ 64 - 2 ^ 31\<close> bytes or more;
  no property below reaches that case.
\<close>

definition wrap_int :: "int \<Rightarrow> int" where
  "wrap_int i = (i + 2 ^ 31) mod 2 ^ 32 - 2 ^ 31"

partial_function (option) split_loop_wrapping ::
  "int \<Rightarrow> string \<Rightarrow> int \<Rightarrow> logger_state \<Rightarrow> logger_state option" where
  "split_loop_wrapping level message pos s =
     (if to_size_t pos < length message then
        split_loop_wrapping level message (wrap_int (pos + step))
          (asl_log level
             ((if pos \<noteq> 0 then ''[...] '' else '''') @
              take (nat step) (drop (nat pos) message) @
              (if to_size_t (wrap_int (pos + step)) < length message then '' [...]'' else ''''))
             s)
      else Some s)"

definition apple_asl_logger_log_wrapping ::
  "asl_env \<Rightarrow> int \<Rightarrow> string \<Rightarrow> logger_state \<Rightarrow> logger_state option" where
  "apple_asl_logger_log_wrapping env level message s =
     (let s1 = (if asl s = None
                then s\<lparr>asl := asl_open env ''Docker'' ''com.docker.docker'' 0,
                       log_msg := asl_new env,
                       calls := calls s @ [Asl_open ''Docker'' ''com.docker.docker'' 0, Asl_new]\<rparr>
                else s);
          len = length message
      in if len < 1024 then Some (asl_log level message s1)
         else split_loop_wrapping level message 0 s1)"

subsection \<open>Vocabulary of the properties\<close>

text \<open>
  \<open>logged s s'\<close> is the list of texts of the \<open>Asl_log\<close> calls made between the states
  \<open>s\<close> and \<open>s'\<close>, in order. \<open>asl_log_all\<close> logs a list of texts one after the other.
\<close>

fun logged_texts :: "asl_call list \<Rightarrow> string list" where
  "logged_texts [] = []"
| "logged_texts (Asl_log c m l t # cs) = t # logged_texts cs"
| "logged_texts (e # cs) = logged_texts cs"

definition logged :: "logger_state \<Rightarrow> logger_state \<Rightarrow> string list" where
  "logged s s' = logged_texts (drop (length (calls s)) (calls s'))"

definition asl_log_all :: "int \<Rightarrow> string list \<Rightarrow> logger_state \<Rightarrow> logger_state" where
  "asl_log_all level texts s = foldl (\<lambda>s t. asl_log level t s) s texts"

text \<open>
  The split as the specification words it, to be compared with what the loop does: a message of
  length \<open>L\<close> gives \<open>ceil (L / 1000)\<close> entries; entry \<open>i\<close> carries the message bytes from
  \<open>1000 * i\<close> up to \<open>min (1000 * (i + 1)) L\<close>, with the prefix \<open>''[...] ''\<close> unless it is the
  first and the suffix \<open>'' [...]''\<close> unless it is the last.
\<close>

definition claimed_entry :: "string \<Rightarrow> nat \<Rightarrow> string" where
  "claimed_entry message i =
     (if i = 0 then '''' else ''[...] '') @
     take 1000 (drop (1000 * i) message) @
     (if i + 1 < (length message + 999) div 1000 then '' [...]'' else '''')"

definition claimed_split :: "string \<Rightarrow> string list" where
  "claimed_split message = map (claimed_entry message) [0..<(length message + 999) div 1000]"

text \<open>
  What the wrapping loop logs for a message of more than 2147484000 bytes: 2147484
  entries of 1000 message bytes, the last of them without the suffix.
\<close>

definition wrapping_entry :: "string \<Rightarrow> nat \<Rightarrow> string" where
  "wrapping_entry message i =
     (if i = 0 then '''' else ''[...] '') @
     take 1000 (drop (1000 * i) message) @
     (if i < 2147483 then '' [...]'' else '''')"

text \<open>A mock ASL library and the state at program start, for concrete runs.\<close>

definition mock_asl :: asl_env where
  "mock_asl = \<lparr>asl_open = (\<lambda>ident facility opts. Some 1), asl_new = Some 2\<rparr>"

definition logger_start :: logger_state where
  "logger_start = \<lparr>asl = None, log_msg = None, calls = []\<rparr>"

section \<open>Auxiliary facts\<close>

lemmas gpu_simps = getVRAMSize_nvapi_def getVRAMSize_nvml_def Let_def case_prod_beta
  NVAPI_OK_def NVML_SUCCESS_def

lemmas mock_simps = mock_nvapi_def mock_nvml_def nvapi_exports_def nvml_exports_def
  nvapi_opens_def nvapi_resolves_def nvml_opens_def nvml_resolves_def
  NV_DISPLAY_DRIVER_MEMORY_INFO_VER_def

lemmas path_defs = nvapi_opens_def nvapi_resolves_def nvml_opens_def nvml_resolves_def

text \<open>A 32-bit count of kilobytes, widened to 64 bits and multiplied by 1024, does not wrap.\<close>

lemma unat_ucast_32_64: "unat (ucast (x :: 32 word) :: 64 word) = unat x"
proof -
  have "unat x < 2 ^ 32"
    using unsigned_less [of x] by simp
  then have "unat x < 2 ^ 64"
    by simp
  then show ?thesis
    by (simp add: unsigned_ucast_eq take_bit_nat_eq_self)
qed

lemma unat_kilobytes_to_bytes: "unat (ucast (x :: 32 word) * 1024 :: 64 word) = unat x * 1024"
proof -
  have "unat x < 2 ^ 32"
    using unsigned_less [of x] by simp
  then have "unat (ucast x :: 64 word) * unat (1024 :: 64 word) < 2 ^ LENGTH(64)"
    by (simp add: unat_ucast_32_64)
  then have "unat (ucast x * 1024 :: 64 word) = unat (ucast x :: 64 word) * unat (1024 :: 64 word)"
    by (simp only: unat_mult_lem)
  then show ?thesis
    by (simp add: unat_ucast_32_64)
qed



text \<open>A result other than 0 is returned only when every step has succeeded.\<close>

lemma getVRAMSize_nvapi_nonzero:
  "fst (getVRAMSize_nvapi env tr) \<noteq> 0 \<Longrightarrow>
      (\<exists>h fi fe fm fu hs c mi.
         nvapi_opens env h \<and> nvapi_resolves env h fi fe fm fu \<and>
         invoke_NvAPI_Initialize env fi = NVAPI_OK \<and>
         invoke_NvAPI_EnumPhysicalGPUs env fe (stack_handles env) 0 = (NVAPI_OK, hs, c) \<and> c \<noteq> 0 \<and>
         invoke_NvAPI_GPU_GetMemoryInfo env fm (hs 0)
           ((stack_memInfo env)\<lparr>version := NV_DISPLAY_DRIVER_MEMORY_INFO_VER\<rparr>) = (NVAPI_OK, mi))"
  unfolding path_defs
  by (auto simp: getVRAMSize_nvapi_def Let_def NVAPI_OK_def
      split: option.splits if_splits prod.splits)

lemma getVRAMSize_nvml_nonzero:
  "fst (getVRAMSize_nvml env tr) \<noteq> 0 \<Longrightarrow>
      (\<exists>h gi gs gg gm d mem.
         nvml_opens env h \<and> nvml_resolves env h gi gs gg gm \<and>
         invoke_nvmlInit env gi = NVML_SUCCESS \<and>
         invoke_nvmlDeviceGetHandleByIndex env gg 0 (stack_device env) = (NVML_SUCCESS, d) \<and>
         invoke_nvmlDeviceGetMemoryInfo env gm d (stack_memory env) = (NVML_SUCCESS, mem))"
  unfolding path_defs
  by (auto simp: getVRAMSize_nvml_def Let_def NVML_SUCCESS_def
      split: option.splits if_splits prod.splits)





text \<open>
  The responses are the same, in particular, when the two environments have the same
  external functions and no vendor function lets what it writes depend on the contents
  of the memory it is handed.
\<close>

lemma nvapi_same_responses_if_input_independent:
  assumes "LoadLibraryA a = LoadLibraryA b" and "GetProcAddress a = GetProcAddress b"
    and "invoke_NvAPI_Initialize a = invoke_NvAPI_Initialize b"
    and "invoke_NvAPI_EnumPhysicalGPUs a = invoke_NvAPI_EnumPhysicalGPUs b"
    and "invoke_NvAPI_GPU_GetMemoryInfo a = invoke_NvAPI_GPU_GetMemoryInfo b"
    and "\<And>f hs hs' c. invoke_NvAPI_EnumPhysicalGPUs a f hs c = invoke_NvAPI_EnumPhysicalGPUs a f hs' c"
    and "\<And>f g m m'. version m = version m' \<Longrightarrow>
      invoke_NvAPI_GPU_GetMemoryInfo a f g m = invoke_NvAPI_GPU_GetMemoryInfo a f g m'"
  shows "nvapi_same_responses a b"
proof -
  have "invoke_NvAPI_EnumPhysicalGPUs a f (stack_handles a) 0 =
      invoke_NvAPI_EnumPhysicalGPUs b f (stack_handles b) 0" for f
    using assms(6) [of f "stack_handles a" 0 "stack_handles b"] assms(4) by simp
  moreover have "invoke_NvAPI_GPU_GetMemoryInfo a f g
        ((stack_memInfo a)\<lparr>version := NV_DISPLAY_DRIVER_MEMORY_INFO_VER\<rparr>) =
      invoke_NvAPI_GPU_GetMemoryInfo b f g
        ((stack_memInfo b)\<lparr>version := NV_DISPLAY_DRIVER_MEMORY_INFO_VER\<rparr>)" for f g
    using assms(7) [of "(stack_memInfo a)\<lparr>version := NV_DISPLAY_DRIVER_MEMORY_INFO_VER\<rparr>"
        "(stack_memInfo b)\<lparr>version := NV_DISPLAY_DRIVER_MEMORY_INFO_VER\<rparr>" f g] assms(5)
    by simp
  ultimately show ?thesis
    using assms(1-3) by (simp add: nvapi_same_responses_def)
qed

lemma nvml_same_responses_if_input_independent:
  assumes "dlopen a = dlopen b" and "dlsym a = dlsym b"
    and "invoke_nvmlInit a = invoke_nvmlInit b"
    and "invoke_nvmlDeviceGetHandleByIndex a = invoke_nvmlDeviceGetHandleByIndex b"
    and "invoke_nvmlDeviceGetMemoryInfo a = invoke_nvmlDeviceGetMemoryInfo b"
    and "\<And>f i d d'. invoke_nvmlDeviceGetHandleByIndex a f i d = invoke_nvmlDeviceGetHandleByIndex a f i d'"
    and "\<And>f d m m'. invoke_nvmlDeviceGetMemoryInfo a f d m = invoke_nvmlDeviceGetMemoryInfo a f d m'"
  shows "nvml_same_responses a b"
proof -
  have "invoke_nvmlDeviceGetHandleByIndex a f 0 (stack_device a) =
      invoke_nvmlDeviceGetHandleByIndex b f 0 (stack_device b)" for f
    using assms(6) [of f 0 "stack_device a" "stack_device b"] assms(4) by simp
  moreover have "invoke_nvmlDeviceGetMemoryInfo a f d (stack_memory a) =
      invoke_nvmlDeviceGetMemoryInfo b f d (stack_memory b)" for f d
    using assms(7) [of f d "stack_memory a" "stack_memory b"] assms(5) by simp
  ultimately show ?thesis
    using assms(1-3) by (simp add: nvml_same_responses_def)
qed

section \<open>The VRAM prober: properties\<close>

text \<open>
  C1. At every failure injection point the function returns exactly 0, in both variants:
  both library names fail to open; a library opens and any one of the four required
  symbols is missing; init returns a non-success status; the enumeration fails or counts
  zero devices (Windows), or the get-by-index call fails (Linux); the memory-info query
  fails. The list is exhaustive: a result other than 0 is returned only when every step
  has succeeded. The model is a total function, so a value is returned in every case.
\<close>

theorem getVRAMSize_failure_returns_zero:
  "(LoadLibraryA env ''nvapi64.dll'' = None \<and> LoadLibraryA env ''nvapi.dll'' = None
      \<longrightarrow> fst (getVRAMSize_nvapi env tr) = 0) \<and>
   (nvapi_opens env h \<and>
      (GetProcAddress env h ''NvAPI_Initialize'' = None \<or>
       GetProcAddress env h ''NvAPI_EnumPhysicalGPUs'' = None \<or>
       GetProcAddress env h ''NvAPI_GPU_GetMemoryInfo'' = None \<or>
       GetProcAddress env h ''NvAPI_Unload'' = None)
      \<longrightarrow> fst (getVRAMSize_nvapi env tr) = 0) \<and>
   (nvapi_opens env h \<and> nvapi_resolves env h fi fe fm fu \<and>
      invoke_NvAPI_Initialize env fi \<noteq> NVAPI_OK
      \<longrightarrow> fst (getVRAMSize_nvapi env tr) = 0) \<and>
   (nvapi_opens env h \<and> nvapi_resolves env h fi fe fm fu \<and>
      invoke_NvAPI_Initialize env fi = NVAPI_OK \<and>
      invoke_NvAPI_EnumPhysicalGPUs env fe (stack_handles env) 0 = (st, hs, c) \<and>
      (st \<noteq> NVAPI_OK \<or> c = 0)
      \<longrightarrow> fst (getVRAMSize_nvapi env tr) = 0) \<and>
   (nvapi_opens env h \<and> nvapi_resolves env h fi fe fm fu \<and>
      invoke_NvAPI_Initialize env fi = NVAPI_OK \<and>
      invoke_NvAPI_EnumPhysicalGPUs env fe (stack_handles env) 0 = (NVAPI_OK, hs, c) \<and> c \<noteq> 0 \<and>
      fst (invoke_NvAPI_GPU_GetMemoryInfo env fm (hs 0)
             ((stack_memInfo env)\<lparr>version := NV_DISPLAY_DRIVER_MEMORY_INFO_VER\<rparr>)) \<noteq> NVAPI_OK
      \<longrightarrow> fst (getVRAMSize_nvapi env tr) = 0) \<and>
   (dlopen env' ''libnvidia-ml.so.1'' = None \<and> dlopen env' ''libnvidia-ml.so'' = None
      \<longrightarrow> fst (getVRAMSize_nvml env' tr') = 0) \<and>
   (nvml_opens env' h' \<and>
      (dlsym env' h' ''nvmlInit'' = None \<or>
       dlsym env' h' ''nvmlShutdown'' = None \<or>
       dlsym env' h' ''nvmlDeviceGetHandleByIndex'' = None \<or>
       dlsym env' h' ''nvmlDeviceGetMemoryInfo'' = None)
      \<longrightarrow> fst (getVRAMSize_nvml env' tr') = 0) \<and>
   (nvml_opens env' h' \<and> nvml_resolves env' h' gi gs gg gm \<and>
      invoke_nvmlInit env' gi \<noteq> NVML_SUCCESS
      \<longrightarrow> fst (getVRAMSize_nvml env' tr') = 0) \<and>
   (nvml_opens env' h' \<and> nvml_resolves env' h' gi gs gg gm \<and>
      invoke_nvmlInit env' gi = NVML_SUCCESS \<and>
      fst (invoke_nvmlDeviceGetHandleByIndex env' gg 0 (stack_device env')) \<noteq> NVML_SUCCESS
      \<longrightarrow> fst (getVRAMSize_nvml env' tr') = 0) \<and>
   (nvml_opens env' h' \<and> nvml_resolves env' h' gi gs gg gm \<and>
      invoke_nvmlInit env' gi = NVML_SUCCESS \<and>
      invoke_nvmlDeviceGetHandleByIndex env' gg 0 (stack_device env') = (NVML_SUCCESS, d) \<and>
      fst (invoke_nvmlDeviceGetMemoryInfo env' gm d (stack_memory env')) \<noteq> NVML_SUCCESS
      \<longrightarrow> fst (getVRAMSize_nvml env' tr') = 0) \<and>
   (fst (getVRAMSize_nvapi env tr) \<noteq> 0 \<longrightarrow>
      (\<exists>h fi fe fm fu hs c mi.
         nvapi_opens env h \<and> nvapi_resolves env h fi fe fm fu \<and>
         invoke_NvAPI_Initialize env fi = NVAPI_OK \<and>
         invoke_NvAPI_EnumPhysicalGPUs env fe (stack_handles env) 0 = (NVAPI_OK, hs, c) \<and> c \<noteq> 0 \<and>
         invoke_NvAPI_GPU_GetMemoryInfo env fm (hs 0)
           ((stack_memInfo env)\<lparr>version := NV_DISPLAY_DRIVER_MEMORY_INFO_VER\<rparr>) = (NVAPI_OK, mi))) \<and>
   (fst (getVRAMSize_nvml env' tr') \<noteq> 0 \<longrightarrow>
      (\<exists>h gi gs gg gm d mem.
         nvml_opens env' h \<and> nvml_resolves env' h gi gs gg gm \<and>
         invoke_nvmlInit env' gi = NVML_SUCCESS \<and>
         invoke_nvmlDeviceGetHandleByIndex env' gg 0 (stack_device env') = (NVML_SUCCESS, d) \<and>
         invoke_nvmlDeviceGetMemoryInfo env' gm d (stack_memory env') = (NVML_SUCCESS, mem)))"
proof (intro conjI impI)
  assume "fst (getVRAMSize_nvapi env tr) \<noteq> 0"
  then show "\<exists>h fi fe fm fu hs c mi.
      nvapi_opens env h \<and> nvapi_resolves env h fi fe fm fu \<and>
      invoke_NvAPI_Initialize env fi = NVAPI_OK \<and>
      invoke_NvAPI_EnumPhysicalGPUs env fe (stack_handles env) 0 = (NVAPI_OK, hs, c) \<and> c \<noteq> 0 \<and>
      invoke_NvAPI_GPU_GetMemoryInfo env fm (hs 0)
        ((stack_memInfo env)\<lparr>version := NV_DISPLAY_DRIVER_MEMORY_INFO_VER\<rparr>) = (NVAPI_OK, mi)"
    by (rule getVRAMSize_nvapi_nonzero)
next
  assume "fst (getVRAMSize_nvml env' tr') \<noteq> 0"
  then show "\<exists>h gi gs gg gm d mem.
      nvml_opens env' h \<and> nvml_resolves env' h gi gs gg gm \<and>
      invoke_nvmlInit env' gi = NVML_SUCCESS \<and>
      invoke_nvmlDeviceGetHandleByIndex env' gg 0 (stack_device env') = (NVML_SUCCESS, d) \<and>
      invoke_nvmlDeviceGetMemoryInfo env' gm d (stack_memory env') = (NVML_SUCCESS, mem)"
    by (rule getVRAMSize_nvml_nonzero)
qed ((unfold path_defs)?; elim conjE disjE; simp add: gpu_simps split: option.split)+

theorem getVRAMSize_failure_returns_zero_witness:
  "LoadLibraryA (mock_nvapi None None nvapi_exports 0 0 1 0 8388608) ''nvapi64.dll'' = None \<and>
   LoadLibraryA (mock_nvapi None None nvapi_exports 0 0 1 0 8388608) ''nvapi.dll'' = None \<and>
   fst (getVRAMSize_nvapi (mock_nvapi None None nvapi_exports 0 0 1 0 8388608) []) = 0 \<and>
   nvapi_opens (mock_nvapi (Some 5) None (nvapi_exports(''NvAPI_Unload'' := None)) 0 0 1 0 8388608) 5 \<and>
   GetProcAddress (mock_nvapi (Some 5) None (nvapi_exports(''NvAPI_Unload'' := None)) 0 0 1 0 8388608)
     5 ''NvAPI_Unload'' = None \<and>
   fst (getVRAMSize_nvapi
     (mock_nvapi (Some 5) None (nvapi_exports(''NvAPI_Unload'' := None)) 0 0 1 0 8388608) []) = 0 \<and>
   nvapi_resolves (mock_nvapi (Some 5) None nvapi_exports 1 0 1 0 8388608) 5 1 2 3 4 \<and>
   invoke_NvAPI_Initialize (mock_nvapi (Some 5) None nvapi_exports 1 0 1 0 8388608) 1 \<noteq> NVAPI_OK \<and>
   fst (getVRAMSize_nvapi (mock_nvapi (Some 5) None nvapi_exports 1 0 1 0 8388608) []) = 0 \<and>
   snd (snd (invoke_NvAPI_EnumPhysicalGPUs (mock_nvapi (Some 5) None nvapi_exports 0 0 0 0 8388608) 2
     (stack_handles (mock_nvapi (Some 5) None nvapi_exports 0 0 0 0 8388608)) 0)) = 0 \<and>
   fst (getVRAMSize_nvapi (mock_nvapi (Some 5) None nvapi_exports 0 0 0 0 8388608) []) = 0 \<and>
   fst (invoke_NvAPI_GPU_GetMemoryInfo (mock_nvapi (Some 5) None nvapi_exports 0 0 1 1 8388608) 3 7
     ((stack_memInfo (mock_nvapi (Some 5) None nvapi_exports 0 0 1 1 8388608))
        \<lparr>version := NV_DISPLAY_DRIVER_MEMORY_INFO_VER\<rparr>)) \<noteq> NVAPI_OK \<and>
   fst (getVRAMSize_nvapi (mock_nvapi (Some 5) None nvapi_exports 0 0 1 1 8388608) []) = 0 \<and>
   dlopen (mock_nvml None None nvml_exports 0 0 0 8589934592) ''libnvidia-ml.so.1'' = None \<and>
   dlopen (mock_nvml None None nvml_exports 0 0 0 8589934592) ''libnvidia-ml.so'' = None \<and>
   fst (getVRAMSize_nvml (mock_nvml None None nvml_exports 0 0 0 8589934592) []) = 0 \<and>
   nvml_opens (mock_nvml (Some 5) None (nvml_exports(''nvmlInit'' := None)) 0 0 0 8589934592) 5 \<and>
   dlsym (mock_nvml (Some 5) None (nvml_exports(''nvmlInit'' := None)) 0 0 0 8589934592)
     5 ''nvmlInit'' = None \<and>
   fst (getVRAMSize_nvml
     (mock_nvml (Some 5) None (nvml_exports(''nvmlInit'' := None)) 0 0 0 8589934592) []) = 0 \<and>
   nvml_resolves (mock_nvml (Some 5) None nvml_exports 1 0 0 8589934592) 5 1 2 3 4 \<and>
   invoke_nvmlInit (mock_nvml (Some 5) None nvml_exports 1 0 0 8589934592) 1 \<noteq> NVML_SUCCESS \<and>
   fst (getVRAMSize_nvml (mock_nvml (Some 5) None nvml_exports 1 0 0 8589934592) []) = 0 \<and>
   fst (invoke_nvmlDeviceGetHandleByIndex (mock_nvml (Some 5) None nvml_exports 0 1 0 8589934592) 3 0
     (stack_device (mock_nvml (Some 5) None nvml_exports 0 1 0 8589934592))) \<noteq> NVML_SUCCESS \<and>
   fst (getVRAMSize_nvml (mock_nvml (Some 5) None nvml_exports 0 1 0 8589934592) []) = 0 \<and>
   fst (invoke_nvmlDeviceGetMemoryInfo (mock_nvml (Some 5) None nvml_exports 0 0 1 8589934592) 4 7
     (stack_memory (mock_nvml (Some 5) None nvml_exports 0 0 1 8589934592))) \<noteq> NVML_SUCCESS \<and>
   fst (getVRAMSize_nvml (mock_nvml (Some 5) None nvml_exports 0 0 1 8589934592) []) = 0 \<and>
   fst (getVRAMSize_nvapi (mock_nvapi (Some 5) None nvapi_exports 0 0 1 0 8388608) []) \<noteq> 0 \<and>
   nvapi_resolves (mock_nvapi (Some 5) None nvapi_exports 0 0 1 0 8388608) 5 1 2 3 4 \<and>
   fst (getVRAMSize_nvml (mock_nvml (Some 5) None nvml_exports 0 0 0 8589934592) []) \<noteq> 0 \<and>
   nvml_resolves (mock_nvml (Some 5) None nvml_exports 0 0 0 8589934592) 5 1 2 3 4"
  using
    getVRAMSize_failure_returns_zero
      [where env = "mock_nvapi (Some 5) None nvapi_exports 0 0 1 0 8388608" and tr = "[]"
         and env' = "mock_nvml (Some 5) None nvml_exports 0 0 0 8589934592" and tr' = "[]"]
    getVRAMSize_failure_returns_zero [where env = "mock_nvapi None None nvapi_exports 0 0 1 0 8388608" and tr = "[]"
          and env' = "mock_nvml None None nvml_exports 0 0 0 8589934592" and tr' = "[]"]
    getVRAMSize_failure_returns_zero [where env = "mock_nvapi (Some 5) None (nvapi_exports(''NvAPI_Unload'' := None)) 0 0 1 0 8388608"
          and tr = "[]" and h = 5
          and env' = "mock_nvml (Some 5) None (nvml_exports(''nvmlInit'' := None)) 0 0 0 8589934592"
          and tr' = "[]" and h' = 5]
    getVRAMSize_failure_returns_zero [where env = "mock_nvapi (Some 5) None nvapi_exports 1 0 1 0 8388608" and tr = "[]" and h = 5
          and fi = 1 and fe = 2 and fm = 3 and fu = 4
          and env' = "mock_nvml (Some 5) None nvml_exports 1 0 0 8589934592" and tr' = "[]" and h' = 5
          and gi = 1 and gs = 2 and gg = 3 and gm = 4]
    getVRAMSize_failure_returns_zero [where env = "mock_nvapi (Some 5) None nvapi_exports 0 0 0 0 8388608" and tr = "[]" and h = 5
          and fi = 1 and fe = 2 and fm = 3 and fu = 4 and st = 0 and hs = "\<lambda>i. 7" and c = 0
          and env' = "mock_nvml (Some 5) None nvml_exports 0 1 0 8589934592" and tr' = "[]" and h' = 5
          and gi = 1 and gs = 2 and gg = 3 and gm = 4]
    getVRAMSize_failure_returns_zero [where env = "mock_nvapi (Some 5) None nvapi_exports 0 0 1 1 8388608" and tr = "[]" and h = 5
          and fi = 1 and fe = 2 and fm = 3 and fu = 4 and hs = "\<lambda>i. 7" and c = 1
          and env' = "mock_nvml (Some 5) None nvml_exports 0 0 1 8589934592" and tr' = "[]" and h' = 5
          and gi = 1 and gs = 2 and gg = 3 and gm = 4 and d = 7]
  by (simp add: mock_simps gpu_simps)

text \<open>
  C2. Resource symmetry, in both variants. Whenever the fallback chain opens a library
  \<open>h\<close>, the events of the call hold one successful load and exactly one unload, the
  unload is of \<open>h\<close> and is the last event before the function returns. When moreover the
  four symbols resolve and init succeeds, the shutdown function is called exactly once,
  and it is the event immediately before the unload, whatever the later steps return.
\<close>

theorem getVRAMSize_resource_symmetry:
  "(nvapi_opens env h \<longrightarrow>
      (\<exists>evs. snd (getVRAMSize_nvapi env tr) = tr @ evs \<and>
         length (filter is_Load_ok evs) = 1 \<and>
         filter is_Unload evs = [Unload h] \<and> last evs = Unload h \<and>
         (\<forall>fi fe fm fu.
            nvapi_resolves env h fi fe fm fu \<and> invoke_NvAPI_Initialize env fi = NVAPI_OK \<longrightarrow>
            filter is_Shutdown evs = [Call_Shutdown fu] \<and>
            last (butlast evs) = Call_Shutdown fu))) \<and>
   (nvml_opens env' h' \<longrightarrow>
      (\<exists>evs. snd (getVRAMSize_nvml env' tr') = tr' @ evs \<and>
         length (filter is_Load_ok evs) = 1 \<and>
         filter is_Unload evs = [Unload h'] \<and> last evs = Unload h' \<and>
         (\<forall>gi gs gg gm.
            nvml_resolves env' h' gi gs gg gm \<and> invoke_nvmlInit env' gi = NVML_SUCCESS \<longrightarrow>
            filter is_Shutdown evs = [Call_Shutdown gs] \<and>
            last (butlast evs) = Call_Shutdown gs)))"
  unfolding path_defs
  by (intro conjI impI; elim conjE disjE; simp add: gpu_simps split: option.split)

theorem getVRAMSize_resource_symmetry_witness:
  "nvapi_opens (mock_nvapi (Some 5) None nvapi_exports 0 0 1 1 8388608) 5 \<and>
   nvapi_resolves (mock_nvapi (Some 5) None nvapi_exports 0 0 1 1 8388608) 5 1 2 3 4 \<and>
   invoke_NvAPI_Initialize (mock_nvapi (Some 5) None nvapi_exports 0 0 1 1 8388608) 1 = NVAPI_OK \<and>
   filter is_Unload (snd (getVRAMSize_nvapi (mock_nvapi (Some 5) None nvapi_exports 0 0 1 1 8388608) []))
     = [Unload 5] \<and>
   filter is_Shutdown (snd (getVRAMSize_nvapi (mock_nvapi (Some 5) None nvapi_exports 0 0 1 1 8388608) []))
     = [Call_Shutdown 4] \<and>
   last (snd (getVRAMSize_nvapi (mock_nvapi (Some 5) None nvapi_exports 0 0 1 1 8388608) [])) = Unload 5 \<and>
   nvml_opens (mock_nvml None (Some 6) nvml_exports 0 1 0 8589934592) 6 \<and>
   nvml_resolves (mock_nvml None (Some 6) nvml_exports 0 1 0 8589934592) 6 1 2 3 4 \<and>
   invoke_nvmlInit (mock_nvml None (Some 6) nvml_exports 0 1 0 8589934592) 1 = NVML_SUCCESS \<and>
   filter is_Unload (snd (getVRAMSize_nvml (mock_nvml None (Some 6) nvml_exports 0 1 0 8589934592) []))
     = [Unload 6] \<and>
   filter is_Shutdown (snd (getVRAMSize_nvml (mock_nvml None (Some 6) nvml_exports 0 1 0 8589934592) []))
     = [Call_Shutdown 2] \<and>
   last (snd (getVRAMSize_nvml (mock_nvml None (Some 6) nvml_exports 0 1 0 8589934592) [])) = Unload 6"
  using getVRAMSize_resource_symmetry
    [where env = "mock_nvapi (Some 5) None nvapi_exports 0 0 1 1 8388608" and tr = "[]" and h = 5
       and env' = "mock_nvml None (Some 6) nvml_exports 0 1 0 8589934592" and tr' = "[]" and h' = 6]
  by (simp add: mock_simps gpu_simps)

text \<open>
  C3. Library-name fallback, in both variants. When the primary name fails and the
  secondary name opens \<open>h\<close>, the call goes on with \<open>h\<close>: after the two loads, the four
  symbols are looked up in \<open>h\<close>, the last event is the unload of \<open>h\<close>, and when every later
  step succeeds the result is the memory value of the library \<open>h\<close>. When both names
  fail, the function returns 0 after the two loads and nothing else: no unload.
\<close>

theorem getVRAMSize_library_fallback:
  "(LoadLibraryA env ''nvapi64.dll'' = None \<and> LoadLibraryA env ''nvapi.dll'' = Some h \<longrightarrow>
      (\<exists>evs. snd (getVRAMSize_nvapi env tr) =
          tr @ [Load ''nvapi64.dll'' None, Load ''nvapi.dll'' (Some h),
                Resolve h ''NvAPI_Initialize'' (GetProcAddress env h ''NvAPI_Initialize''),
                Resolve h ''NvAPI_EnumPhysicalGPUs'' (GetProcAddress env h ''NvAPI_EnumPhysicalGPUs''),
                Resolve h ''NvAPI_GPU_GetMemoryInfo'' (GetProcAddress env h ''NvAPI_GPU_GetMemoryInfo''),
                Resolve h ''NvAPI_Unload'' (GetProcAddress env h ''NvAPI_Unload'')] @ evs \<and>
          last evs = Unload h)) \<and>
   (LoadLibraryA env ''nvapi64.dll'' = None \<and> LoadLibraryA env ''nvapi.dll'' = Some h \<and>
      nvapi_resolves env h fi fe fm fu \<and> invoke_NvAPI_Initialize env fi = NVAPI_OK \<and>
      invoke_NvAPI_EnumPhysicalGPUs env fe (stack_handles env) 0 = (NVAPI_OK, hs, c) \<and> c \<noteq> 0 \<and>
      invoke_NvAPI_GPU_GetMemoryInfo env fm (hs 0)
        ((stack_memInfo env)\<lparr>version := NV_DISPLAY_DRIVER_MEMORY_INFO_VER\<rparr>) = (NVAPI_OK, mi) \<longrightarrow>
      fst (getVRAMSize_nvapi env tr) = ucast (dedicatedVideoMemory mi) * 1024) \<and>
   (LoadLibraryA env ''nvapi64.dll'' = None \<and> LoadLibraryA env ''nvapi.dll'' = None \<longrightarrow>
      getVRAMSize_nvapi env tr = (0, tr @ [Load ''nvapi64.dll'' None, Load ''nvapi.dll'' None]) \<and>
      filter is_Unload (drop (length tr) (snd (getVRAMSize_nvapi env tr))) = []) \<and>
   (dlopen env' ''libnvidia-ml.so.1'' = None \<and> dlopen env' ''libnvidia-ml.so'' = Some h' \<longrightarrow>
      (\<exists>evs. snd (getVRAMSize_nvml env' tr') =
          tr' @ [Load ''libnvidia-ml.so.1'' None, Load ''libnvidia-ml.so'' (Some h'),
                 Resolve h' ''nvmlInit'' (dlsym env' h' ''nvmlInit''),
                 Resolve h' ''nvmlShutdown'' (dlsym env' h' ''nvmlShutdown''),
                 Resolve h' ''nvmlDeviceGetHandleByIndex'' (dlsym env' h' ''nvmlDeviceGetHandleByIndex''),
                 Resolve h' ''nvmlDeviceGetMemoryInfo'' (dlsym env' h' ''nvmlDeviceGetMemoryInfo'')] @ evs \<and>
          last evs = Unload h')) \<and>
   (dlopen env' ''libnvidia-ml.so.1'' = None \<and> dlopen env' ''libnvidia-ml.so'' = Some h' \<and>
      nvml_resolves env' h' gi gs gg gm \<and> invoke_nvmlInit env' gi = NVML_SUCCESS \<and>
      invoke_nvmlDeviceGetHandleByIndex env' gg 0 (stack_device env') = (NVML_SUCCESS, d) \<and>
      invoke_nvmlDeviceGetMemoryInfo env' gm d (stack_memory env') = (NVML_SUCCESS, mem) \<longrightarrow>
      fst (getVRAMSize_nvml env' tr') = total mem) \<and>
   (dlopen env' ''libnvidia-ml.so.1'' = None \<and> dlopen env' ''libnvidia-ml.so'' = None \<longrightarrow>
      getVRAMSize_nvml env' tr' =
        (0, tr' @ [Load ''libnvidia-ml.so.1'' None, Load ''libnvidia-ml.so'' None]) \<and>
      filter is_Unload (drop (length tr') (snd (getVRAMSize_nvml env' tr'))) = [])"
  unfolding path_defs
  by (intro conjI impI; elim conjE disjE; simp add: gpu_simps split: option.split)

theorem getVRAMSize_library_fallback_witness:
  "LoadLibraryA (mock_nvapi None (Some 5) nvapi_exports 0 0 1 0 8388608) ''nvapi64.dll'' = None \<and>
   LoadLibraryA (mock_nvapi None (Some 5) nvapi_exports 0 0 1 0 8388608) ''nvapi.dll'' = Some 5 \<and>
   getVRAMSize_nvapi (mock_nvapi None (Some 5) nvapi_exports 0 0 1 0 8388608) [] =
     (8589934592,
      [Load ''nvapi64.dll'' None, Load ''nvapi.dll'' (Some 5),
       Resolve 5 ''NvAPI_Initialize'' (Some 1), Resolve 5 ''NvAPI_EnumPhysicalGPUs'' (Some 2),
       Resolve 5 ''NvAPI_GPU_GetMemoryInfo'' (Some 3), Resolve 5 ''NvAPI_Unload'' (Some 4),
       Call_Init 1, Call_Enum 2,
       Call_MemInfo 3 7 \<lparr>version = 0x10028, dedicatedVideoMemory = 0,
         availableDedicatedVideoMemory = 0, systemVideoMemory = 0, sharedSystemMemory = 0\<rparr>,
       Call_Shutdown 4, Unload 5]) \<and>
   getVRAMSize_nvapi (mock_nvapi None None nvapi_exports 0 0 1 0 8388608) [] =
     (0, [Load ''nvapi64.dll'' None, Load ''nvapi.dll'' None]) \<and>
   dlopen (mock_nvml None (Some 5) nvml_exports 0 0 0 8589934592) ''libnvidia-ml.so.1'' = None \<and>
   dlopen (mock_nvml None (Some 5) nvml_exports 0 0 0 8589934592) ''libnvidia-ml.so'' = Some 5 \<and>
   getVRAMSize_nvml (mock_nvml None (Some 5) nvml_exports 0 0 0 8589934592) [] =
     (8589934592,
      [Load ''libnvidia-ml.so.1'' None, Load ''libnvidia-ml.so'' (Some 5),
       Resolve 5 ''nvmlInit'' (Some 1), Resolve 5 ''nvmlShutdown'' (Some 2),
       Resolve 5 ''nvmlDeviceGetHandleByIndex'' (Some 3),
       Resolve 5 ''nvmlDeviceGetMemoryInfo'' (Some 4),
       Call_Init 1, Call_Enum 3, Call_MemInfo 4 7 \<lparr>total = 0, free = 0, used = 0\<rparr>,
       Call_Shutdown 2, Unload 5]) \<and>
   getVRAMSize_nvml (mock_nvml None None nvml_exports 0 0 0 8589934592) [] =
     (0, [Load ''libnvidia-ml.so.1'' None, Load ''libnvidia-ml.so'' None])"
  using
    getVRAMSize_library_fallback
      [where env = "mock_nvapi None (Some 5) nvapi_exports 0 0 1 0 8388608" and tr = "[]" and h = 5
         and fi = 1 and fe = 2 and fm = 3 and fu = 4 and hs = "\<lambda>i. 7" and c = 1
         and mi = "\<lparr>version = 0x10028, dedicatedVideoMemory = 8388608,
           availableDedicatedVideoMemory = 0, systemVideoMemory = 0, sharedSystemMemory = 0\<rparr>"
         and env' = "mock_nvml None (Some 5) nvml_exports 0 0 0 8589934592" and tr' = "[]" and h' = 5
         and gi = 1 and gs = 2 and gg = 3 and gm = 4 and d = 7
         and mem = "\<lparr>total = 8589934592, free = 0, used = 0\<rparr>"]
    getVRAMSize_library_fallback
      [where env = "mock_nvapi None None nvapi_exports 0 0 1 0 8388608" and tr = "[]"
         and env' = "mock_nvml None None nvml_exports 0 0 0 8589934592" and tr' = "[]"]
  by (simp add: mock_simps gpu_simps)

text \<open>
  C4. When the library opens, the four symbols resolve and init returns a non-success
  status, the function returns 0, unloads the library exactly once, as its last event,
  and makes no shutdown call: init is the only vendor function called. Both variants.
\<close>

theorem getVRAMSize_init_failure:
  "(nvapi_opens env h \<and> nvapi_resolves env h fi fe fm fu \<and>
      invoke_NvAPI_Initialize env fi \<noteq> NVAPI_OK \<longrightarrow>
      (\<exists>evs. getVRAMSize_nvapi env tr = (0, tr @ evs) \<and>
         filter is_Unload evs = [Unload h] \<and> last evs = Unload h \<and>
         filter is_Shutdown evs = [] \<and> filter is_vendor_call evs = [Call_Init fi])) \<and>
   (nvml_opens env' h' \<and> nvml_resolves env' h' gi gs gg gm \<and>
      invoke_nvmlInit env' gi \<noteq> NVML_SUCCESS \<longrightarrow>
      (\<exists>evs. getVRAMSize_nvml env' tr' = (0, tr' @ evs) \<and>
         filter is_Unload evs = [Unload h'] \<and> last evs = Unload h' \<and>
         filter is_Shutdown evs = [] \<and> filter is_vendor_call evs = [Call_Init gi]))"
  unfolding path_defs
  by (intro conjI impI; elim conjE disjE; simp add: gpu_simps split: option.split)

theorem getVRAMSize_init_failure_witness:
  "nvapi_opens (mock_nvapi (Some 5) None nvapi_exports 1 0 1 0 8388608) 5 \<and>
   nvapi_resolves (mock_nvapi (Some 5) None nvapi_exports 1 0 1 0 8388608) 5 1 2 3 4 \<and>
   invoke_NvAPI_Initialize (mock_nvapi (Some 5) None nvapi_exports 1 0 1 0 8388608) 1 \<noteq> NVAPI_OK \<and>
   getVRAMSize_nvapi (mock_nvapi (Some 5) None nvapi_exports 1 0 1 0 8388608) [] =
     (0, [Load ''nvapi64.dll'' (Some 5),
          Resolve 5 ''NvAPI_Initialize'' (Some 1), Resolve 5 ''NvAPI_EnumPhysicalGPUs'' (Some 2),
          Resolve 5 ''NvAPI_GPU_GetMemoryInfo'' (Some 3), Resolve 5 ''NvAPI_Unload'' (Some 4),
          Call_Init 1, Unload 5]) \<and>
   nvml_opens (mock_nvml (Some 5) None nvml_exports 1 0 0 8589934592) 5 \<and>
   nvml_resolves (mock_nvml (Some 5) None nvml_exports 1 0 0 8589934592) 5 1 2 3 4 \<and>
   invoke_nvmlInit (mock_nvml (Some 5) None nvml_exports 1 0 0 8589934592) 1 \<noteq> NVML_SUCCESS \<and>
   getVRAMSize_nvml (mock_nvml (Some 5) None nvml_exports 1 0 0 8589934592) [] =
     (0, [Load ''libnvidia-ml.so.1'' (Some 5),
          Resolve 5 ''nvmlInit'' (Some 1), Resolve 5 ''nvmlShutdown'' (Some 2),
          Resolve 5 ''nvmlDeviceGetHandleByIndex'' (Some 3),
          Resolve 5 ''nvmlDeviceGetMemoryInfo'' (Some 4),
          Call_Init 1, Unload 5])"
  using getVRAMSize_init_failure
    [where env = "mock_nvapi (Some 5) None nvapi_exports 1 0 1 0 8388608" and tr = "[]" and h = 5
       and fi = 1 and fe = 2 and fm = 3 and fu = 4
       and env' = "mock_nvml (Some 5) None nvml_exports 1 0 0 8589934592" and tr' = "[]" and h' = 5
       and gi = 1 and gs = 2 and gg = 3 and gm = 4]
  by (simp add: mock_simps gpu_simps)

text \<open>
  C5. Symbol-resolution completeness, in both variants. If a call makes any call through
  a resolved function pointer, then a library was opened and all four required symbols
  resolved in it. If a library \<open>h\<close> opens and any of the four symbols is missing, the
  function returns 0, calls no vendor function and unloads \<open>h\<close> exactly once, as its last
  event.
\<close>

theorem getVRAMSize_symbol_completeness:
  "(snd (getVRAMSize_nvapi env tr) = tr @ evs \<and> filter is_vendor_call evs \<noteq> [] \<longrightarrow>
      (\<exists>h fi fe fm fu. nvapi_opens env h \<and> nvapi_resolves env h fi fe fm fu)) \<and>
   (nvapi_opens env h \<and>
      (GetProcAddress env h ''NvAPI_Initialize'' = None \<or>
       GetProcAddress env h ''NvAPI_EnumPhysicalGPUs'' = None \<or>
       GetProcAddress env h ''NvAPI_GPU_GetMemoryInfo'' = None \<or>
       GetProcAddress env h ''NvAPI_Unload'' = None) \<longrightarrow>
      (\<exists>evs. getVRAMSize_nvapi env tr = (0, tr @ evs) \<and> filter is_vendor_call evs = [] \<and>
         filter is_Unload evs = [Unload h] \<and> last evs = Unload h)) \<and>
   (snd (getVRAMSize_nvml env' tr') = tr' @ evs' \<and> filter is_vendor_call evs' \<noteq> [] \<longrightarrow>
      (\<exists>h gi gs gg gm. nvml_opens env' h \<and> nvml_resolves env' h gi gs gg gm)) \<and>
   (nvml_opens env' h' \<and>
      (dlsym env' h' ''nvmlInit'' = None \<or>
       dlsym env' h' ''nvmlShutdown'' = None \<or>
       dlsym env' h' ''nvmlDeviceGetHandleByIndex'' = None \<or>
       dlsym env' h' ''nvmlDeviceGetMemoryInfo'' = None) \<longrightarrow>
      (\<exists>evs. getVRAMSize_nvml env' tr' = (0, tr' @ evs) \<and> filter is_vendor_call evs = [] \<and>
         filter is_Unload evs = [Unload h'] \<and> last evs = Unload h'))"
proof (intro conjI impI)
  assume "snd (getVRAMSize_nvapi env tr) = tr @ evs \<and> filter is_vendor_call evs \<noteq> []"
  then show "\<exists>h fi fe fm fu. nvapi_opens env h \<and> nvapi_resolves env h fi fe fm fu"
    unfolding path_defs by (auto simp: gpu_simps split: option.splits if_splits)
next
  assume "snd (getVRAMSize_nvml env' tr') = tr' @ evs' \<and> filter is_vendor_call evs' \<noteq> []"
  then show "\<exists>h gi gs gg gm. nvml_opens env' h \<and> nvml_resolves env' h gi gs gg gm"
    unfolding path_defs by (auto simp: gpu_simps split: option.splits if_splits)
qed (unfold path_defs; elim conjE disjE; simp add: gpu_simps split: option.split)+

theorem getVRAMSize_symbol_completeness_witness:
  "filter is_vendor_call
     (snd (getVRAMSize_nvapi (mock_nvapi (Some 5) None nvapi_exports 1 0 1 0 8388608) [])) = [Call_Init 1] \<and>
   nvapi_opens (mock_nvapi (Some 5) None nvapi_exports 1 0 1 0 8388608) 5 \<and>
   nvapi_resolves (mock_nvapi (Some 5) None nvapi_exports 1 0 1 0 8388608) 5 1 2 3 4 \<and>
   nvapi_opens
     (mock_nvapi (Some 5) None (nvapi_exports(''NvAPI_GPU_GetMemoryInfo'' := None)) 0 0 1 0 8388608) 5 \<and>
   GetProcAddress
     (mock_nvapi (Some 5) None (nvapi_exports(''NvAPI_GPU_GetMemoryInfo'' := None)) 0 0 1 0 8388608)
     5 ''NvAPI_GPU_GetMemoryInfo'' = None \<and>
   getVRAMSize_nvapi
     (mock_nvapi (Some 5) None (nvapi_exports(''NvAPI_GPU_GetMemoryInfo'' := None)) 0 0 1 0 8388608) [] =
     (0, [Load ''nvapi64.dll'' (Some 5),
          Resolve 5 ''NvAPI_Initialize'' (Some 1), Resolve 5 ''NvAPI_EnumPhysicalGPUs'' (Some 2),
          Resolve 5 ''NvAPI_GPU_GetMemoryInfo'' None, Resolve 5 ''NvAPI_Unload'' (Some 4),
          Unload 5]) \<and>
   filter is_vendor_call
     (snd (getVRAMSize_nvml (mock_nvml (Some 5) None nvml_exports 1 0 0 8589934592) [])) = [Call_Init 1] \<and>
   nvml_opens (mock_nvml (Some 5) None nvml_exports 1 0 0 8589934592) 5 \<and>
   nvml_resolves (mock_nvml (Some 5) None nvml_exports 1 0 0 8589934592) 5 1 2 3 4 \<and>
   nvml_opens (mock_nvml (Some 5) None (nvml_exports(''nvmlShutdown'' := None)) 0 0 0 8589934592) 5 \<and>
   dlsym (mock_nvml (Some 5) None (nvml_exports(''nvmlShutdown'' := None)) 0 0 0 8589934592)
     5 ''nvmlShutdown'' = None \<and>
   getVRAMSize_nvml
     (mock_nvml (Some 5) None (nvml_exports(''nvmlShutdown'' := None)) 0 0 0 8589934592) [] =
     (0, [Load ''libnvidia-ml.so.1'' (Some 5),
          Resolve 5 ''nvmlInit'' (Some 1), Resolve 5 ''nvmlShutdown'' None,
          Resolve 5 ''nvmlDeviceGetHandleByIndex'' (Some 3),
          Resolve 5 ''nvmlDeviceGetMemoryInfo'' (Some 4),
          Unload 5])"
  using
    getVRAMSize_symbol_completeness
      [where env = "mock_nvapi (Some 5) None nvapi_exports 1 0 1 0 8388608" and tr = "[]"
         and evs = "snd (getVRAMSize_nvapi (mock_nvapi (Some 5) None nvapi_exports 1 0 1 0 8388608) [])"
         and env' = "mock_nvml (Some 5) None nvml_exports 1 0 0 8589934592" and tr' = "[]"
         and evs' = "snd (getVRAMSize_nvml (mock_nvml (Some 5) None nvml_exports 1 0 0 8589934592) [])"]
    getVRAMSize_symbol_completeness
      [where env = "mock_nvapi (Some 5) None (nvapi_exports(''NvAPI_GPU_GetMemoryInfo'' := None))
           0 0 1 0 8388608" and tr = "[]" and h = 5
         and env' = "mock_nvml (Some 5) None (nvml_exports(''nvmlShutdown'' := None)) 0 0 0 8589934592"
         and tr' = "[]" and h' = 5]
  by (simp add: mock_simps gpu_simps)

text \<open>
  C6. On full success the function calls shutdown, then unloads the library, and returns
  the memory value in bytes. The Windows variant returns the dedicated video memory (a
  32-bit count of kilobytes) times 1024, computed in \<^verbatim>\<open>size_t\<close> and without
  wrap-around; the Linux variant returns the total memory unchanged. The witness runs the
  values of the claim: 8388608 KB (Windows) and 8589934592 bytes (Linux) both give
  8589934592.
\<close>

theorem getVRAMSize_success_value:
  "(nvapi_opens env h \<and> nvapi_resolves env h fi fe fm fu \<and>
      invoke_NvAPI_Initialize env fi = NVAPI_OK \<and>
      invoke_NvAPI_EnumPhysicalGPUs env fe (stack_handles env) 0 = (NVAPI_OK, hs, c) \<and> c \<noteq> 0 \<and>
      invoke_NvAPI_GPU_GetMemoryInfo env fm (hs 0)
        ((stack_memInfo env)\<lparr>version := NV_DISPLAY_DRIVER_MEMORY_INFO_VER\<rparr>) = (NVAPI_OK, mi) \<longrightarrow>
      (\<exists>evs. getVRAMSize_nvapi env tr = (ucast (dedicatedVideoMemory mi) * 1024, tr @ evs) \<and>
         last (butlast evs) = Call_Shutdown fu \<and> last evs = Unload h) \<and>
      unat (fst (getVRAMSize_nvapi env tr)) = unat (dedicatedVideoMemory mi) * 1024) \<and>
   (nvml_opens env' h' \<and> nvml_resolves env' h' gi gs gg gm \<and>
      invoke_nvmlInit env' gi = NVML_SUCCESS \<and>
      invoke_nvmlDeviceGetHandleByIndex env' gg 0 (stack_device env') = (NVML_SUCCESS, d) \<and>
      invoke_nvmlDeviceGetMemoryInfo env' gm d (stack_memory env') = (NVML_SUCCESS, mem) \<longrightarrow>
      (\<exists>evs. getVRAMSize_nvml env' tr' = (total mem, tr' @ evs) \<and>
         last (butlast evs) = Call_Shutdown gs \<and> last evs = Unload h'))"
  unfolding path_defs
  by (intro conjI impI; elim conjE disjE;
      simp add: gpu_simps unat_kilobytes_to_bytes split: option.split)

theorem getVRAMSize_success_value_witness:
  "nvapi_opens (mock_nvapi (Some 5) None nvapi_exports 0 0 1 0 8388608) 5 \<and>
   nvapi_resolves (mock_nvapi (Some 5) None nvapi_exports 0 0 1 0 8388608) 5 1 2 3 4 \<and>
   dedicatedVideoMemory (snd (invoke_NvAPI_GPU_GetMemoryInfo
     (mock_nvapi (Some 5) None nvapi_exports 0 0 1 0 8388608) 3 7
     ((stack_memInfo (mock_nvapi (Some 5) None nvapi_exports 0 0 1 0 8388608))
        \<lparr>version := NV_DISPLAY_DRIVER_MEMORY_INFO_VER\<rparr>))) = 8388608 \<and>
   fst (getVRAMSize_nvapi (mock_nvapi (Some 5) None nvapi_exports 0 0 1 0 8388608) []) = 8589934592 \<and>
   unat (fst (getVRAMSize_nvapi (mock_nvapi (Some 5) None nvapi_exports 0 0 1 0 8388608) []))
     = 8589934592 \<and>
   nvml_opens (mock_nvml (Some 5) None nvml_exports 0 0 0 8589934592) 5 \<and>
   nvml_resolves (mock_nvml (Some 5) None nvml_exports 0 0 0 8589934592) 5 1 2 3 4 \<and>
   total (snd (invoke_nvmlDeviceGetMemoryInfo
     (mock_nvml (Some 5) None nvml_exports 0 0 0 8589934592) 4 7
     (stack_memory (mock_nvml (Some 5) None nvml_exports 0 0 0 8589934592)))) = 8589934592 \<and>
   fst (getVRAMSize_nvml (mock_nvml (Some 5) None nvml_exports 0 0 0 8589934592) []) = 8589934592"
  using getVRAMSize_success_value
    [where env = "mock_nvapi (Some 5) None nvapi_exports 0 0 1 0 8388608" and tr = "[]" and h = 5
       and fi = 1 and fe = 2 and fm = 3 and fu = 4 and hs = "\<lambda>i. 7" and c = 1
       and mi = "\<lparr>version = 0x10028, dedicatedVideoMemory = 8388608,
         availableDedicatedVideoMemory = 0, systemVideoMemory = 0, sharedSystemMemory = 0\<rparr>"
       and env' = "mock_nvml (Some 5) None nvml_exports 0 0 0 8589934592" and tr' = "[]" and h' = 5
       and gi = 1 and gs = 2 and gg = 3 and gm = 4 and d = 7
       and mem = "\<lparr>total = 8589934592, free = 0, used = 0\<rparr>"]
  by (simp add: mock_simps gpu_simps)

text \<open>
  C7. The version tag is the constant \<open>0x10028\<close>. In the Windows variant every record
  handed to the memory-info query is the local \<^verbatim>\<open>memInfo\<close> with its version field set
  to that tag. In the Linux variant the record handed to the query is the local
  \<^verbatim>\<open>memory\<close> as it stands: \<open>nvmlMemory_t\<close> has no version field and no field is
  written before the call. In both variants, when the query is reached and returns a
  non-success status, the query was made once, the function then calls shutdown, unloads
  the library and returns 0.
\<close>

theorem getVRAMSize_memory_query:
  "NV_DISPLAY_DRIVER_MEMORY_INFO_VER = 0x10028 \<and>
   (snd (getVRAMSize_nvapi env tr) = tr @ evs \<and> Call_MemInfo f g m \<in> set evs \<longrightarrow>
      m = (stack_memInfo env)\<lparr>version := NV_DISPLAY_DRIVER_MEMORY_INFO_VER\<rparr> \<and>
      version m = 0x10028) \<and>
   (nvapi_opens env h \<and> nvapi_resolves env h fi fe fm fu \<and>
      invoke_NvAPI_Initialize env fi = NVAPI_OK \<and>
      invoke_NvAPI_EnumPhysicalGPUs env fe (stack_handles env) 0 = (NVAPI_OK, hs, c) \<and> c \<noteq> 0 \<and>
      fst (invoke_NvAPI_GPU_GetMemoryInfo env fm (hs 0)
             ((stack_memInfo env)\<lparr>version := NV_DISPLAY_DRIVER_MEMORY_INFO_VER\<rparr>)) \<noteq> NVAPI_OK \<longrightarrow>
      (\<exists>evs. getVRAMSize_nvapi env tr = (0, tr @ evs) \<and>
         filter is_MemInfo evs =
           [Call_MemInfo fm (hs 0)
              ((stack_memInfo env)\<lparr>version := NV_DISPLAY_DRIVER_MEMORY_INFO_VER\<rparr>)] \<and>
         last (butlast evs) = Call_Shutdown fu \<and> last evs = Unload h)) \<and>
   (snd (getVRAMSize_nvml env' tr') = tr' @ evs' \<and> Call_MemInfo f' g' m' \<in> set evs' \<longrightarrow>
      m' = stack_memory env') \<and>
   (nvml_opens env' h' \<and> nvml_resolves env' h' gi gs gg gm \<and>
      invoke_nvmlInit env' gi = NVML_SUCCESS \<and>
      invoke_nvmlDeviceGetHandleByIndex env' gg 0 (stack_device env') = (NVML_SUCCESS, d) \<and>
      fst (invoke_nvmlDeviceGetMemoryInfo env' gm d (stack_memory env')) \<noteq> NVML_SUCCESS \<longrightarrow>
      (\<exists>evs. getVRAMSize_nvml env' tr' = (0, tr' @ evs) \<and>
         filter is_MemInfo evs = [Call_MemInfo gm d (stack_memory env')] \<and>
         last (butlast evs) = Call_Shutdown gs \<and> last evs = Unload h'))"
proof (intro conjI impI)
  show "NV_DISPLAY_DRIVER_MEMORY_INFO_VER = 0x10028"
    by (simp add: NV_DISPLAY_DRIVER_MEMORY_INFO_VER_def)
next
  assume a: "snd (getVRAMSize_nvapi env tr) = tr @ evs \<and> Call_MemInfo f g m \<in> set evs"
  then show "m = (stack_memInfo env)\<lparr>version := NV_DISPLAY_DRIVER_MEMORY_INFO_VER\<rparr>"
    by (auto simp: gpu_simps split: option.splits if_splits)
  from a show "version m = 0x10028"
    by (auto simp: gpu_simps NV_DISPLAY_DRIVER_MEMORY_INFO_VER_def split: option.splits if_splits)
next
  assume "snd (getVRAMSize_nvml env' tr') = tr' @ evs' \<and> Call_MemInfo f' g' m' \<in> set evs'"
  then show "m' = stack_memory env'"
    by (auto simp: gpu_simps split: option.splits if_splits)
qed (unfold path_defs; elim conjE disjE; simp add: gpu_simps split: option.split)+

theorem getVRAMSize_memory_query_witness:
  "filter is_MemInfo (snd (getVRAMSize_nvapi (mock_nvapi (Some 5) None nvapi_exports 0 0 1 1 8388608) []))
     = [Call_MemInfo 3 7 \<lparr>version = 0x10028, dedicatedVideoMemory = 0,
          availableDedicatedVideoMemory = 0, systemVideoMemory = 0, sharedSystemMemory = 0\<rparr>] \<and>
   fst (invoke_NvAPI_GPU_GetMemoryInfo (mock_nvapi (Some 5) None nvapi_exports 0 0 1 1 8388608) 3 7
     ((stack_memInfo (mock_nvapi (Some 5) None nvapi_exports 0 0 1 1 8388608))
        \<lparr>version := NV_DISPLAY_DRIVER_MEMORY_INFO_VER\<rparr>)) \<noteq> NVAPI_OK \<and>
   fst (getVRAMSize_nvapi (mock_nvapi (Some 5) None nvapi_exports 0 0 1 1 8388608) []) = 0 \<and>
   last (butlast (snd (getVRAMSize_nvapi (mock_nvapi (Some 5) None nvapi_exports 0 0 1 1 8388608) [])))
     = Call_Shutdown 4 \<and>
   last (snd (getVRAMSize_nvapi (mock_nvapi (Some 5) None nvapi_exports 0 0 1 1 8388608) [])) = Unload 5 \<and>
   filter is_MemInfo (snd (getVRAMSize_nvml (mock_nvml (Some 5) None nvml_exports 0 0 1 8589934592) []))
     = [Call_MemInfo 4 7 \<lparr>total = 0, free = 0, used = 0\<rparr>] \<and>
   fst (invoke_nvmlDeviceGetMemoryInfo (mock_nvml (Some 5) None nvml_exports 0 0 1 8589934592) 4 7
     (stack_memory (mock_nvml (Some 5) None nvml_exports 0 0 1 8589934592))) \<noteq> NVML_SUCCESS \<and>
   fst (getVRAMSize_nvml (mock_nvml (Some 5) None nvml_exports 0 0 1 8589934592) []) = 0 \<and>
   last (butlast (snd (getVRAMSize_nvml (mock_nvml (Some 5) None nvml_exports 0 0 1 8589934592) [])))
     = Call_Shutdown 2 \<and>
   last (snd (getVRAMSize_nvml (mock_nvml (Some 5) None nvml_exports 0 0 1 8589934592) [])) = Unload 5"
  using getVRAMSize_memory_query
    [where env = "mock_nvapi (Some 5) None nvapi_exports 0 0 1 1 8388608" and tr = "[]" and h = 5
       and evs = "snd (getVRAMSize_nvapi (mock_nvapi (Some 5) None nvapi_exports 0 0 1 1 8388608) [])"
       and f = 3 and g = 7
       and m = "\<lparr>version = 0x10028, dedicatedVideoMemory = 0,
         availableDedicatedVideoMemory = 0, systemVideoMemory = 0, sharedSystemMemory = 0\<rparr>"
       and fi = 1 and fe = 2 and fm = 3 and fu = 4 and hs = "\<lambda>i. 7" and c = 1
       and env' = "mock_nvml (Some 5) None nvml_exports 0 0 1 8589934592" and tr' = "[]" and h' = 5
       and evs' = "snd (getVRAMSize_nvml (mock_nvml (Some 5) None nvml_exports 0 0 1 8589934592) [])"
       and f' = 4 and g' = 7 and m' = "\<lparr>total = 0, free = 0, used = 0\<rparr>"
       and gi = 1 and gs = 2 and gg = 3 and gm = 4 and d = 7]
  by (simp add: mock_simps gpu_simps)



section \<open>The log forwarder: properties\<close>

text \<open>Facts on the number of steps, \<open>ceil (L / 1000)\<close>.\<close>

lemma ceil_upper: "(L :: nat) \<le> 1000 * ((L + 999) div 1000)"
proof -
  have "L + 999 = 1000 * ((L + 999) div 1000) + (L + 999) mod 1000"
    by simp
  moreover have "(L + 999) mod 1000 < 1000"
    by simp
  ultimately show ?thesis
    by linarith
qed

lemma ceil_lower: "k < (L + 999) div 1000 \<Longrightarrow> 1000 * k < (L :: nat)"
proof -
  assume "k < (L + 999) div 1000"
  then have "k + 1 \<le> (L + 999) div 1000"
    by simp
  then have "1000 * (k + 1) \<le> 1000 * ((L + 999) div 1000)"
    by (rule mult_le_mono2)
  also have "\<dots> \<le> L + 999"
    by simp
  finally show ?thesis
    by simp
qed

lemma ceil_next: "1000 * (k + 1) < (L :: nat) \<longleftrightarrow> k + 1 < (L + 999) div 1000"
proof
  assume "1000 * (k + 1) < L"
  then have "1000 * (k + 1) + 1000 \<le> L + 999"
    by simp
  then have "(1000 * (k + 1) + 1000) div 1000 \<le> (L + 999) div 1000"
    by (rule div_le_mono)
  then show "k + 1 < (L + 999) div 1000"
    by simp
next
  assume "k + 1 < (L + 999) div 1000"
  then show "1000 * (k + 1) < L"
    by (rule ceil_lower)
qed

lemma ceil_bound: "(L :: nat) \<le> 2147483000 \<Longrightarrow> 1000 * ((L + 999) div 1000) \<le> 2147483000"
proof -
  assume "L \<le> 2147483000"
  then have "L + 999 \<le> 2147483999"
    by simp
  then have "(L + 999) div 1000 \<le> 2147483999 div 1000"
    by (rule div_le_mono)
  then have "(L + 999) div 1000 \<le> 2147483"
    by simp
  then have "1000 * ((L + 999) div 1000) \<le> 1000 * 2147483"
    by (rule mult_le_mono2)
  then show ?thesis
    by simp
qed

text \<open>The loop, one iteration at a time.\<close>

lemma to_size_t_int: "n \<le> 2147483647 \<Longrightarrow> to_size_t (int n) = n"
proof -
  assume "n \<le> 2147483647"
  then have "int n < 2 ^ 64"
    by simp
  then have "int n mod 2 ^ 64 = int n"
    by simp
  then show ?thesis
    by (simp add: to_size_t_def)
qed

lemma split_loop_exit:
  "length message \<le> n \<Longrightarrow> n \<le> 2147483647 \<Longrightarrow> split_loop level message (int n) s = Inr s"
  by (subst split_loop.simps) (simp add: to_size_t_int)

lemma split_loop_iterate:
  assumes "1000 * k < length message" and "1000 * (k + 1) \<le> 2147483000"
  shows "split_loop level message (int (1000 * k)) s =
    split_loop level message (int (1000 * (k + 1)))
      (asl_log level
         ((if k = 0 then '''' else ''[...] '') @
          take 1000 (drop (1000 * k) message) @
          (if 1000 * (k + 1) < length message then '' [...]'' else ''''))
         s)"
proof -
  have "to_size_t (int (1000 * k)) = 1000 * k"
    using assms(2) by (intro to_size_t_int) simp
  then have enter: "to_size_t (int (1000 * k)) < length message"
    using assms(1) by simp
  have next_pos: "int (1000 * k) + step = int (1000 * (k + 1))"
    by (simp add: step_def)
  have no_ovf: "\<not> INT_MAX < int (1000 * (k + 1))"
    using assms(2) by (simp add: INT_MAX_def)
  have suffix: "to_size_t (int (1000 * (k + 1))) = 1000 * (k + 1)"
    using assms(2) by (intro to_size_t_int) simp
  have pos0: "int (1000 * k) \<noteq> 0 \<longleftrightarrow> k \<noteq> 0"
    by simp
  have args: "nat (int (1000 * k)) = 1000 * k" "nat step = 1000"
    by (simp_all add: step_def)
  show ?thesis
    apply (subst split_loop.simps)
    apply (simp only: next_pos)
    apply (simp only: enter no_ovf suffix pos0 args if_True if_False)
    apply (cases "k = 0")
     apply simp_all
    done
qed

lemma split_loop_from:
  assumes len: "length message \<le> 2147483000"
  shows "k \<le> (length message + 999) div 1000 \<Longrightarrow>
    split_loop level message (int (1000 * k)) s =
      Inr (asl_log_all level
             (map (claimed_entry message) [k..<(length message + 999) div 1000]) s)"
proof (induction "(length message + 999) div 1000 - k" arbitrary: k s)
  case 0
  then have k: "k = (length message + 999) div 1000"
    by simp
  have "length message \<le> 1000 * k"
    unfolding k by (rule ceil_upper)
  moreover have "1000 * k \<le> 2147483647"
    unfolding k using ceil_bound [OF len] by simp
  ultimately have "split_loop level message (int (1000 * k)) s = Inr s"
    by (rule split_loop_exit)
  then show ?case
    using k by (simp add: asl_log_all_def)
next
  case (Suc d)
  let ?n = "(length message + 999) div 1000"
  from Suc.hyps(2) have klt: "k < ?n"
    by simp
  then have pos_lt: "1000 * k < length message"
    by (rule ceil_lower)
  have "1000 * (k + 1) \<le> 1000 * ?n"
    using klt by simp
  then have bound: "1000 * (k + 1) \<le> 2147483000"
    using ceil_bound [OF len] by simp
  have sfx: "1000 * (k + 1) < length message \<longleftrightarrow> k + 1 < ?n"
    by (rule ceil_next)
  have entry: "(if k = 0 then '''' else ''[...] '') @ take 1000 (drop (1000 * k) message) @
      (if 1000 * (k + 1) < length message then '' [...]'' else '''') = claimed_entry message k"
    unfolding sfx claimed_entry_def by (rule refl)
  have ih: "split_loop level message (int (1000 * (k + 1))) (asl_log level (claimed_entry message k) s) =
      Inr (asl_log_all level (map (claimed_entry message) [k + 1..<?n])
             (asl_log level (claimed_entry message k) s))"
    using Suc.hyps(1) [of "k + 1"] Suc.hyps(2) klt by simp
  have upt: "[k..<?n] = k # [k + 1..<?n]"
    using klt by (simp add: upt_conv_Cons)
  show ?case
    unfolding split_loop_iterate [OF pos_lt bound] entry ih upt
    by (simp add: asl_log_all_def)
qed

lemma split_loop_overflow:
  assumes len: "2147483000 < length message"
  shows "k \<le> 2147483 \<Longrightarrow> split_loop level message (int (1000 * k)) s = Inl Signed_Overflow"
proof (induction "2147483 - k" arbitrary: k s)
  case 0
  then have k: "k = 2147483"
    by simp
  have "to_size_t (int (1000 * k)) = 1000 * k"
    unfolding k by (intro to_size_t_int) simp
  then have enter: "to_size_t (int (1000 * k)) < length message"
    using len by (simp add: k)
  have ovf: "INT_MAX < int (1000 * k) + step"
    by (simp add: k INT_MAX_def step_def)
  show ?case
    by (subst split_loop.simps) (simp only: enter ovf if_True)
next
  case (Suc d)
  then have klt: "k < 2147483"
    by simp
  then have bound: "1000 * (k + 1) \<le> 2147483000"
    by simp
  have pos_lt: "1000 * k < length message"
    using len klt by simp
  show ?case
    unfolding split_loop_iterate [OF pos_lt bound]
    using Suc.hyps(1) [of "k + 1"] Suc.hyps(2) klt by simp
qed

lemma calls_asl_log_all:
  "calls (asl_log_all level texts s) = calls s @ map (Asl_log (asl s) (log_msg s) level) texts \<and>
   asl (asl_log_all level texts s) = asl s \<and> log_msg (asl_log_all level texts s) = log_msg s"
  by (induction texts arbitrary: s) (simp_all add: asl_log_all_def asl_log_def)

lemma logged_texts_append: "logged_texts (xs @ ys) = logged_texts xs @ logged_texts ys"
  by (induction xs rule: logged_texts.induct) simp_all

lemma logged_texts_map: "logged_texts (map (Asl_log c m l) texts) = texts"
  by (induction texts) simp_all

lemma logged_asl_log_all:
  "calls s1 = calls s @ pre \<Longrightarrow> logged_texts pre = [] \<Longrightarrow>
   logged s (asl_log_all level texts s1) = texts"
  by (simp add: logged_def calls_asl_log_all logged_texts_append logged_texts_map)

lemma apple_asl_logger_log_single:
  "length message < 1024 \<Longrightarrow>
   \<exists>s'. apple_asl_logger_log env level message s = Inr s' \<and> logged s s' = [message]"
  by (simp add: apple_asl_logger_log_def Let_def logged_def asl_log_def)

lemma apple_asl_logger_log_split:
  assumes "1024 \<le> length message" and "length message \<le> 2147483000"
  shows "\<exists>s'. apple_asl_logger_log env level message s = Inr s' \<and>
    logged s s' = claimed_split message"
proof -
  define s1 where "s1 = (if asl s = None
                then s\<lparr>asl := asl_open env ''Docker'' ''com.docker.docker'' 0,
                       log_msg := asl_new env,
                       calls := calls s @ [Asl_open ''Docker'' ''com.docker.docker'' 0, Asl_new]\<rparr>
                else s)"
  have run: "apple_asl_logger_log env level message s = split_loop level message 0 s1"
    using assms(1) by (simp add: apple_asl_logger_log_def s1_def Let_def)
  have loop: "split_loop level message (int (1000 * 0)) s1 =
      Inr (asl_log_all level (map (claimed_entry message) [0..<(length message + 999) div 1000]) s1)"
    by (rule split_loop_from [OF assms(2)]) simp
  obtain pre where pre: "calls s1 = calls s @ pre" "logged_texts pre = []"
  proof (cases "asl s = None")
    case True
    then have "calls s1 = calls s @ [Asl_open ''Docker'' ''com.docker.docker'' 0, Asl_new]"
      by (simp add: s1_def)
    then show ?thesis
      by (rule that) simp
  next
    case False
    then have "calls s1 = calls s @ []"
      by (simp add: s1_def)
    then show ?thesis
      by (rule that) simp
  qed
  from loop have "apple_asl_logger_log env level message s =
      Inr (asl_log_all level (claimed_split message) s1)"
    by (simp add: run claimed_split_def)
  moreover have "logged s (asl_log_all level (claimed_split message) s1) = claimed_split message"
    using pre by (rule logged_asl_log_all)
  ultimately show ?thesis
    by simp
qed

lemma apple_asl_logger_log_overflow:
  assumes "2147483000 < length message"
  shows "apple_asl_logger_log env level message s = Inl Signed_Overflow"
proof -
  have "split_loop level message (int (1000 * 0)) s' = Inl Signed_Overflow" for s'
    by (rule split_loop_overflow [OF assms]) simp
  then show ?thesis
    using assms by (simp add: apple_asl_logger_log_def Let_def)
qed

lemma claimed_split_1024:
  assumes "length message = 1024"
  shows "claimed_split message = [take 1000 message @ '' [...]'', ''[...] '' @ drop 1000 message]"
    and "length (take 1000 message) = 1000" and "length (drop 1000 message) = 24"
proof -
  have n: "(length message + 999) div 1000 = 2"
    using assms by simp
  have upt: "[0..<2] = [0, Suc 0]"
    by (simp add: upt_rec)
  show "claimed_split message = [take 1000 message @ '' [...]'', ''[...] '' @ drop 1000 message]"
    unfolding claimed_split_def n upt using assms by (simp add: claimed_entry_def)
  show "length (take 1000 message) = 1000" "length (drop 1000 message) = 24"
    using assms by simp_all
qed

lemma concat_segments:
  "concat (map (\<lambda>i. take m (drop (m * i) xs)) [0..<n]) = take (m * n) xs"
proof (induction n)
  case 0
  show ?case by simp
next
  case (Suc n)
  have "m * Suc n = m * n + m"
    by simp
  then have "take (m * Suc n) xs = take (m * n) xs @ take m (drop (m * n) xs)"
    by (simp only: take_add)
  then show ?case
    using Suc by simp
qed

lemma segments_cover: "concat (map (\<lambda>i. take 1000 (drop (1000 * i) message))
    [0..<(length message + 999) div 1000]) = message"
  using ceil_upper [of "length message"] by (simp add: concat_segments)

text \<open>
  Within the range where \<^verbatim>\<open>pos\<close> does not overflow, that is for messages of at most
  2147483000 bytes, the function behaves as C9 and C10 state. A message of at
  least 1024 bytes is split into two or more segments that make up the message, each of
  at most 1000 bytes, logged in order, every segment but the first with the prefix and
  every segment but the last with the suffix.
\<close>

lemma apple_asl_logger_log_split_in_range:
  assumes "1024 \<le> length message" and "length message \<le> 2147483000"
  shows "\<exists>s' segs. apple_asl_logger_log env level message s = Inr s' \<and>
    2 \<le> length segs \<and> concat segs = message \<and> (\<forall>seg \<in> set segs. length seg \<le> 1000) \<and>
    logged s s' =
      map (\<lambda>i. (if i = 0 then '''' else ''[...] '') @ segs ! i @
                 (if i + 1 < length segs then '' [...]'' else ''''))
        [0..<length segs]"
proof -
  let ?n = "(length message + 999) div 1000"
  let ?segs = "map (\<lambda>i. take 1000 (drop (1000 * i) message)) [0..<?n]"
  obtain s' where run: "apple_asl_logger_log env level message s = Inr s'"
    and texts: "logged s s' = claimed_split message"
    using apple_asl_logger_log_split [OF assms] by blast
  have "(1024 + 999) div 1000 \<le> ?n"
    using assms(1) by (intro div_le_mono) simp
  then have n2: "2 \<le> length ?segs"
    by simp
  have cover: "concat ?segs = message"
    by (rule segments_cover)
  have short: "\<forall>seg \<in> set ?segs. length seg \<le> 1000"
    by auto
  have "claimed_split message =
      map (\<lambda>i. (if i = 0 then [] else ''[...] '') @ ?segs ! i @
                 (if i + 1 < length ?segs then '' [...]'' else []))
        [0..<length ?segs]"
    by (simp add: claimed_split_def claimed_entry_def)
  with texts have eq: "logged s s' =
      map (\<lambda>i. (if i = 0 then [] else ''[...] '') @ ?segs ! i @
                 (if i + 1 < length ?segs then '' [...]'' else []))
        [0..<length ?segs]"
    by simp
  show ?thesis
    by (intro exI [of _ s'] exI [of _ ?segs] conjI run n2 cover short eq)
qed

text \<open>
  The boundary. Below 1024 bytes the message is logged verbatim in one call. At 1024
  bytes it is split in two: 1000 bytes with the suffix, then 24 bytes with the prefix.
  From 1024 bytes on (and up to 2147483000) the log holds \<open>ceil (L / 1000)\<close> entries, at
  least two, entry \<open>i\<close> being \<open>claimed_entry message i\<close>.
\<close>

lemma apple_asl_logger_log_boundary_in_range:
  "(length message < 1024 \<longrightarrow>
      (\<exists>s'. apple_asl_logger_log env level message s = Inr s' \<and> logged s s' = [message])) \<and>
   (length message = 1024 \<longrightarrow>
      (\<exists>s'. apple_asl_logger_log env level message s = Inr s' \<and>
         logged s s' = [take 1000 message @ '' [...]'', ''[...] '' @ drop 1000 message] \<and>
         length (take 1000 message) = 1000 \<and> length (drop 1000 message) = 24)) \<and>
   (1024 \<le> length message \<and> length message \<le> 2147483000 \<longrightarrow>
      (\<exists>s'. apple_asl_logger_log env level message s = Inr s' \<and>
         logged s s' = claimed_split message \<and>
         length (logged s s') = (length message + 999) div 1000 \<and>
         2 \<le> length (logged s s')))"
proof (intro conjI impI)
  assume "length message < 1024"
  then show "\<exists>s'. apple_asl_logger_log env level message s = Inr s' \<and> logged s s' = [message]"
    by (rule apple_asl_logger_log_single)
next
  assume len: "length message = 1024"
  then obtain s' where "apple_asl_logger_log env level message s = Inr s'"
    and "logged s s' = claimed_split message"
    using apple_asl_logger_log_split [of message env level s] by auto
  then show "\<exists>s'. apple_asl_logger_log env level message s = Inr s' \<and>
      logged s s' = [take 1000 message @ '' [...]'', ''[...] '' @ drop 1000 message] \<and>
      length (take 1000 message) = 1000 \<and> length (drop 1000 message) = 24"
    using claimed_split_1024 [OF len] by simp
next
  assume range: "1024 \<le> length message \<and> length message \<le> 2147483000"
  then obtain s' where run: "apple_asl_logger_log env level message s = Inr s'"
    and texts: "logged s s' = claimed_split message"
    using apple_asl_logger_log_split [of message env level s] by auto
  have "(1024 + 999) div 1000 \<le> (length message + 999) div 1000"
    using range by (intro div_le_mono) simp
  then have "2 \<le> length (claimed_split message)"
    by (simp add: claimed_split_def)
  with run texts show "\<exists>s'. apple_asl_logger_log env level message s = Inr s' \<and>
      logged s s' = claimed_split message \<and>
      length (logged s s') = (length message + 999) div 1000 \<and>
      2 \<le> length (logged s s')"
    by (simp add: claimed_split_def)
qed

text \<open>The wrapping loop beyond 2147484000 bytes.\<close>

lemma wrap_int_id: "0 \<le> i \<Longrightarrow> i < 2147483648 \<Longrightarrow> wrap_int i = i"
  by (simp add: wrap_int_def)

lemma wrap_int_2147484000: "wrap_int 2147484000 = - 2147483296"
  by (simp add: wrap_int_def)

lemma to_size_t_wrapped: "to_size_t (- 2147483296) = 18446744071562068320"
  by (simp add: to_size_t_def)

lemma split_loop_wrapping_last:
  assumes "2147484000 < length message" and "length message \<le> 18446744071562068320"
  shows "split_loop_wrapping level message 2147483000 s =
    Some (asl_log level (wrapping_entry message 2147483) s)"
proof -
  have enter: "to_size_t 2147483000 < length message"
    using assms(1) by (simp add: to_size_t_def)
  have next_pos: "wrap_int (2147483000 + step) = - 2147483296"
    by (simp add: step_def wrap_int_def)
  have leave: "\<not> to_size_t (- 2147483296) < length message"
    using assms(2) by (simp add: to_size_t_wrapped)
  have exit: "split_loop_wrapping level message (- 2147483296) s' = Some s'" for s'
    by (subst split_loop_wrapping.simps) (simp only: leave if_False)
  show ?thesis
    apply (subst split_loop_wrapping.simps)
    apply (simp only: enter next_pos leave exit if_True if_False)
    apply (simp add: wrapping_entry_def step_def)
    done
qed

lemma split_loop_wrapping_iterate:
  assumes "2147484000 < length message" and "k < 2147483"
  shows "split_loop_wrapping level message (int (1000 * k)) s =
    split_loop_wrapping level message (int (1000 * (k + 1)))
      (asl_log level (wrapping_entry message k) s)"
proof -
  have "to_size_t (int (1000 * k)) = 1000 * k"
    using assms(2) by (intro to_size_t_int) simp
  then have enter: "to_size_t (int (1000 * k)) < length message"
    using assms by simp
  have sum: "int (1000 * k) + step = int (1000 * (k + 1))"
    by (simp add: step_def)
  have "wrap_int (int (1000 * (k + 1))) = int (1000 * (k + 1))"
    using assms(2) by (intro wrap_int_id) simp_all
  then have next_pos: "wrap_int (int (1000 * k) + step) = int (1000 * (k + 1))"
    by (simp only: sum)
  have "to_size_t (int (1000 * (k + 1))) = 1000 * (k + 1)"
    using assms(2) by (intro to_size_t_int) simp
  then have suffix: "to_size_t (int (1000 * (k + 1))) < length message"
    using assms by simp
  have pos0: "int (1000 * k) \<noteq> 0 \<longleftrightarrow> k \<noteq> 0"
    by simp
  have args: "nat (int (1000 * k)) = 1000 * k" "nat step = 1000"
    by (simp_all add: step_def)
  have entry: "(if k \<noteq> 0 then ''[...] '' else '''') @ take 1000 (drop (1000 * k) message) @
      '' [...]'' = wrapping_entry message k"
    using assms(2) by (simp add: wrapping_entry_def)
  show ?thesis
    apply (subst split_loop_wrapping.simps)
    apply (simp only: next_pos)
    apply (simp only: enter suffix pos0 args if_True entry)
    done
qed

lemma split_loop_wrapping_from:
  assumes "2147484000 < length message" and "length message \<le> 18446744071562068320"
  shows "k \<le> 2147483 \<Longrightarrow>
    split_loop_wrapping level message (int (1000 * k)) s =
      Some (asl_log_all level (map (wrapping_entry message) [k..<2147484]) s)"
proof (induction "2147483 - k" arbitrary: k s)
  case 0
  then have k: "k = 2147483"
    by simp
  have upt: "[2147483..<2147484] = [2147483::nat]"
    by (simp add: upt_rec)
  show ?case
    unfolding k upt using split_loop_wrapping_last [OF assms, of level s]
    by (simp add: asl_log_all_def)
next
  case (Suc d)
  then have klt: "k < 2147483"
    by simp
  then have upt: "[k..<2147484] = k # [k + 1..<2147484]"
    by (simp add: upt_conv_Cons)
  show ?case
    unfolding split_loop_wrapping_iterate [OF assms(1) klt] upt
    using Suc.hyps(1) [of "k + 1"] Suc.hyps(2) klt by (simp add: asl_log_all_def)
qed

lemma apple_asl_logger_log_wrapping_truncates:
  assumes "2147484000 < length message" and "length message \<le> 18446744071562068320"
  shows "\<exists>s'. apple_asl_logger_log_wrapping env level message s = Some s' \<and>
    logged s s' = map (wrapping_entry message) [0..<2147484]"
proof -
  define s1 where "s1 = (if asl s = None
                then s\<lparr>asl := asl_open env ''Docker'' ''com.docker.docker'' 0,
                       log_msg := asl_new env,
                       calls := calls s @ [Asl_open ''Docker'' ''com.docker.docker'' 0, Asl_new]\<rparr>
                else s)"
  have run: "apple_asl_logger_log_wrapping env level message s = split_loop_wrapping level message 0 s1"
    using assms(1) by (simp add: apple_asl_logger_log_wrapping_def s1_def Let_def)
  have loop: "split_loop_wrapping level message (int (1000 * 0)) s1 =
      Some (asl_log_all level (map (wrapping_entry message) [0..<2147484]) s1)"
    by (rule split_loop_wrapping_from [OF assms]) simp
  obtain pre where pre: "calls s1 = calls s @ pre" "logged_texts pre = []"
  proof (cases "asl s = None")
    case True
    then have "calls s1 = calls s @ [Asl_open ''Docker'' ''com.docker.docker'' 0, Asl_new]"
      by (simp add: s1_def)
    then show ?thesis
      by (rule that) simp
  next
    case False
    then have "calls s1 = calls s @ []"
      by (simp add: s1_def)
    then show ?thesis
      by (rule that) simp
  qed
  from loop have "apple_asl_logger_log_wrapping env level message s =
      Some (asl_log_all level (map (wrapping_entry message) [0..<2147484]) s1)"
    by (simp add: run)
  moreover have "logged s (asl_log_all level (map (wrapping_entry message) [0..<2147484]) s1) =
      map (wrapping_entry message) [0..<2147484]"
    using pre by (rule logged_asl_log_all)
  ultimately show ?thesis
    by simp
qed

text \<open>
  At 2147484001 bytes the wrapping run returns after 2147484 log calls, one fewer than
  \<open>ceil (L / 1000) = 2147485\<close>: the last byte of the message is in no log call.
\<close>

lemma apple_asl_logger_log_wrapping_at_2147484001:
  "\<exists>s'. apple_asl_logger_log_wrapping mock_asl 3 (replicate 2147484001 (CHR ''a'')) logger_start
           = Some s' \<and>
        length (logged logger_start s') = 2147484 \<and>
        (length (replicate 2147484001 (CHR ''a'')) + 999) div 1000 = 2147485"
proof -
  have len: "length (replicate 2147484001 (CHR ''a'')) = 2147484001"
    by (simp only: length_replicate)
  have "2147484000 < length (replicate 2147484001 (CHR ''a''))"
    and "length (replicate 2147484001 (CHR ''a'')) \<le> 18446744071562068320"
    unfolding len by simp_all
  then obtain s' where
    "apple_asl_logger_log_wrapping mock_asl 3 (replicate 2147484001 (CHR ''a'')) logger_start = Some s'"
    and "logged logger_start s' = map (wrapping_entry (replicate 2147484001 (CHR ''a''))) [0..<2147484]"
    using apple_asl_logger_log_wrapping_truncates by blast
  then show ?thesis
    unfolding len by simp
qed

text \<open>
  C9. Every message longer than 1024 bytes is to be split into several log calls of at
  most 1000 message bytes each, continuation segments prefixed and non-final segments
  suffixed. Up to 2147483000 bytes this holds (\<open>apple_asl_logger_log_split_in_range\<close>).
  It fails for longer messages: \<^verbatim>\<open>pos\<close> is an \<^verbatim>\<open>int\<close> compared with a
  \<^verbatim>\<open>size_t\<close>, and at \<open>pos = 2147483000\<close> the sum \<^verbatim>\<open>pos + step\<close> exceeds
  \<open>INT_MAX\<close>. The theorem runs the function on a message of 2147484001 bytes. By the
  C standard the outcome is the fault, not a split. With wrapping arithmetic the run logs
  2147484 entries of 1000 bytes and returns: the last byte of the message is in no log
  call, and the last entry logged has no suffix although the message goes on.
\<close>

theorem apple_asl_logger_log_overflow_at_2147484001:
  "apple_asl_logger_log mock_asl 3 (replicate 2147484001 (CHR ''a'')) logger_start =
     Inl Signed_Overflow \<and>
   (\<exists>s'. apple_asl_logger_log_wrapping mock_asl 3 (replicate 2147484001 (CHR ''a'')) logger_start
            = Some s' \<and>
         logged logger_start s' =
           map (wrapping_entry (replicate 2147484001 (CHR ''a''))) [0..<2147484])"
proof -
  have len: "length (replicate 2147484001 (CHR ''a'')) = 2147484001"
    by (simp only: length_replicate)
  have "2147483000 < length (replicate 2147484001 (CHR ''a''))"
    unfolding len by simp
  then have fault: "apple_asl_logger_log mock_asl 3 (replicate 2147484001 (CHR ''a'')) logger_start =
      Inl Signed_Overflow"
    by (rule apple_asl_logger_log_overflow)
  have "2147484000 < length (replicate 2147484001 (CHR ''a''))"
    and "length (replicate 2147484001 (CHR ''a'')) \<le> 18446744071562068320"
    unfolding len by simp_all
  then have "\<exists>s'. apple_asl_logger_log_wrapping mock_asl 3 (replicate 2147484001 (CHR ''a''))
        logger_start = Some s' \<and>
      logged logger_start s' = map (wrapping_entry (replicate 2147484001 (CHR ''a''))) [0..<2147484]"
    by (rule apple_asl_logger_log_wrapping_truncates)
  with fault show ?thesis
    by (rule conjI)
qed

text \<open>
  C10. The single-call path is taken exactly below 1024 bytes, a message of 1024 bytes
  is split into 1000 and 24 bytes, and in general a split message of length \<open>L\<close> gives
  \<open>ceil (L / 1000)\<close> calls, call \<open>i\<close> carrying the bytes from \<open>1000 * i\<close> to
  \<open>min (1000 * (i + 1)) L\<close>. Up to 2147483000 bytes this holds
  (\<open>apple_asl_logger_log_boundary_in_range\<close>). The general part fails for longer messages,
  by the same overflow of \<^verbatim>\<open>pos\<close>. For a message of 2147484001 bytes, where
  \<open>ceil (L / 1000) = 2147485\<close>: by the C standard no run ends with the claimed entries in
  the log, and with wrapping arithmetic the run ends after 2147484 log calls.
\<close>

theorem apple_asl_logger_log_no_split_at_2147484001:
  "\<not> (\<exists>s'. apple_asl_logger_log mock_asl 3 (replicate 2147484001 (CHR ''a'')) logger_start = Inr s' \<and>
          logged logger_start s' = claimed_split (replicate 2147484001 (CHR ''a''))) \<and>
   (\<exists>s'. apple_asl_logger_log_wrapping mock_asl 3 (replicate 2147484001 (CHR ''a'')) logger_start
            = Some s' \<and>
         length (logged logger_start s') = 2147484 \<and>
         (length (replicate 2147484001 (CHR ''a'')) + 999) div 1000 = 2147485)"
proof -
  have "2147483000 < length (replicate 2147484001 (CHR ''a''))"
    by (simp only: length_replicate)
  then have "apple_asl_logger_log mock_asl 3 (replicate 2147484001 (CHR ''a'')) logger_start =
      Inl Signed_Overflow"
    by (rule apple_asl_logger_log_overflow)
  then have "\<not> (\<exists>s'. apple_asl_logger_log mock_asl 3 (replicate 2147484001 (CHR ''a''))
        logger_start = Inr s' \<and>
      logged logger_start s' = claimed_split (replicate 2147484001 (CHR ''a'')))"
    by simp
  then show ?thesis
    using apple_asl_logger_log_wrapping_at_2147484001 by (rule conjI)
qed

end
